theory Spec2Isabelle
  imports Main
begin

section \<open>Python values and the string operations the backend uses\<close>

text \<open>
  The backend works on the values that \<^verbatim>\<open>json.loads\<close> and \<^verbatim>\<open>yaml.safe_load\<close> return: None,
  booleans, integers, floats, strings, lists and dictionaries. A \<^typ>\<open>char\<close> stands for one
  code point below 256, so a \<^typ>\<open>string\<close> is a Python \<^verbatim>\<open>str\<close> over that range. A float is
  kept by its \<^verbatim>\<open>repr\<close>, which determines it: the code only tests a float for truth and
  renders it with \<^verbatim>\<open>str\<close>. A dictionary is an association list in insertion order, read
  with \<open>map_of\<close>.
\<close>

datatype pyval =
    PyNone
  | PyBool bool
  | PyInt int
  | PyFloat string
  | PyStr string
  | PyList "pyval list"
  | PyDict "(pyval \<times> pyval) list"

datatype py_error =
    AttributeError
  | TypeError
  | IndexError
  | RuntimeError string

text \<open>Truth value testing, as \<^verbatim>\<open>x or y\<close>, \<^verbatim>\<open>not x\<close> and \<^verbatim>\<open>if x\<close> do it.\<close>

fun truthy :: "pyval \<Rightarrow> bool" where
  "truthy PyNone = False"
| "truthy (PyBool b) = b"
| "truthy (PyInt i) = (i \<noteq> 0)"
| "truthy (PyFloat r) = (r \<noteq> ''0.0'' \<and> r \<noteq> ''-0.0'')"
| "truthy (PyStr s) = (s \<noteq> [])"
| "truthy (PyList xs) = (xs \<noteq> [])"
| "truthy (PyDict kv) = (kv \<noteq> [])"

definition py_or :: "pyval \<Rightarrow> pyval \<Rightarrow> pyval" where
  "py_or a b = (if truthy a then a else b)"

text \<open>\<^verbatim>\<open>d.get(k)\<close> for a string key: the value, or None.\<close>

definition dict_get :: "(pyval \<times> pyval) list \<Rightarrow> string \<Rightarrow> pyval" where
  "dict_get kv k = (case map_of kv (PyStr k) of None \<Rightarrow> PyNone | Some v \<Rightarrow> v)"

subsection \<open>Whitespace, strip, lower, find\<close>

text \<open>
  \<^verbatim>\<open>str.strip()\<close> and the pattern \<^verbatim>\<open>\s\<close> of a \<^verbatim>\<open>str\<close> regular expression use the same
  test: below 256 the white space is 0x09 to 0x0D, 0x1C to 0x1F, the space, 0x85 and 0xA0.
\<close>

definition isspace :: "char \<Rightarrow> bool" where
  "isspace c = (c \<in> set [CHR 0x09, CHR 0x0A, CHR 0x0B, CHR 0x0C, CHR 0x0D,
     CHR 0x1C, CHR 0x1D, CHR 0x1E, CHR 0x1F, CHR 0x20, CHR 0x85, CHR 0xA0])"

definition py_strip :: "string \<Rightarrow> string" where
  "py_strip s = rev (dropWhile isspace (rev (dropWhile isspace s)))"

definition lower_char :: "char \<Rightarrow> char" where
  "lower_char c =
     (let n = (of_char c :: nat)
      in if (65 \<le> n \<and> n \<le> 90) \<or> (192 \<le> n \<and> n \<le> 222 \<and> n \<noteq> 215)
         then char_of (n + 32) else c)"

definition py_lower :: "string \<Rightarrow> string" where
  "py_lower s = map lower_char s"

text \<open>\<^verbatim>\<open>text.find(c)\<close> and \<^verbatim>\<open>text.rfind(c)\<close> for a one-character \<open>c\<close>: an index, or -1.\<close>

fun py_find :: "char \<Rightarrow> string \<Rightarrow> int" where
  "py_find c [] = -1"
| "py_find c (x # xs) =
     (if x = c then 0 else (let r = py_find c xs in if r = -1 then -1 else r + 1))"

fun py_rfind :: "char \<Rightarrow> string \<Rightarrow> int" where
  "py_rfind c [] = -1"
| "py_rfind c (x # xs) =
     (let r = py_rfind c xs in if r \<noteq> -1 then r + 1 else if x = c then 0 else -1)"

text \<open>\<^verbatim>\<open>text[i:j]\<close> for \<open>0 \<le> i\<close> and \<open>0 \<le> j\<close>, the only slice the code takes.\<close>

definition py_slice :: "string \<Rightarrow> int \<Rightarrow> int \<Rightarrow> string" where
  "py_slice s i j = take (nat j - nat i) (drop (nat i) s)"

subsection \<open>Rendering with \<^verbatim>\<open>str\<close>\<close>

definition digit_char :: "nat \<Rightarrow> char" where
  "digit_char d = ''0123456789abcdef'' ! (d mod 16)"

fun nat_str :: "nat \<Rightarrow> string" where
  "nat_str n = (if n < 10 then [digit_char n] else nat_str (n div 10) @ [digit_char (n mod 10)])"

declare nat_str.simps [simp del]

definition int_str :: "int \<Rightarrow> string" where
  "int_str i = (if i < 0 then CHR ''-'' # nat_str (nat (- i)) else nat_str (nat i))"

text \<open>
  \<^verbatim>\<open>repr\<close> of a string: single quotes unless the string has a single quote and no double
  quote; the quote and the backslash are escaped, tab, newline and return are written
  \<^verbatim>\<open>\t \n \r\<close>, and a character that is not printable (below 0x20, 0x7F to 0xA0, 0xAD) is
  written \<^verbatim>\<open>\xhh\<close>.
\<close>

definition repr_char :: "char \<Rightarrow> char \<Rightarrow> string" where
  "repr_char q c =
     (let n = (of_char c :: nat)
      in if c = q \<or> c = CHR 0x5C then [CHR 0x5C, c]
         else if c = CHR 0x09 then [CHR 0x5C, CHR ''t'']
         else if c = CHR 0x0A then [CHR 0x5C, CHR ''n'']
         else if c = CHR 0x0D then [CHR 0x5C, CHR ''r'']
         else if n < 32 \<or> (127 \<le> n \<and> n \<le> 160) \<or> n = 173
           then [CHR 0x5C, CHR ''x'', digit_char (n div 16), digit_char (n mod 16)]
         else [c])"

definition str_repr :: "string \<Rightarrow> string" where
  "str_repr s =
     (let q = (if CHR 0x27 \<in> set s \<and> CHR 0x22 \<notin> set s then CHR 0x22 else CHR 0x27)
      in q # concat (map (repr_char q) s) @ [q])"

fun join :: "string \<Rightarrow> string list \<Rightarrow> string" where
  "join sep [] = []"
| "join sep [x] = x"
| "join sep (x # y # ys) = x @ sep @ join sep (y # ys)"

fun py_repr :: "pyval \<Rightarrow> string" where
  "py_repr PyNone = ''None''"
| "py_repr (PyBool b) = (if b then ''True'' else ''False'')"
| "py_repr (PyInt i) = int_str i"
| "py_repr (PyFloat r) = r"
| "py_repr (PyStr s) = str_repr s"
| "py_repr (PyList xs) = ''['' @ join '', '' (map py_repr xs) @ '']''"
| "py_repr (PyDict kv) =
     ''{'' @ join '', '' (map (\<lambda>p. py_repr (fst p) @ '': '' @ py_repr (snd p)) kv) @ ''}''"

text \<open>\<^verbatim>\<open>str(x)\<close>: a string is itself, every other value is its \<^verbatim>\<open>repr\<close>.\<close>

definition py_str :: "pyval \<Rightarrow> string" where
  "py_str v = (case v of PyStr s \<Rightarrow> s | _ \<Rightarrow> py_repr v)"

section \<open>A reference decoder for \<^verbatim>\<open>json.loads\<close>\<close>

text \<open>
  \<^verbatim>\<open>json.loads\<close> belongs to the Python library, not to the repository: the functions below
  take the decoder as a parameter \<open>loads\<close>, with \<open>None\<close> where \<^verbatim>\<open>json.loads\<close> raises, and the
  theorems about them hold for every decoder. The examples need the decoder's answer on
  concrete texts; \<open>json_decode\<close> gives it, following the library's scanner: white space is
  space, tab, newline and return; a string may not hold a raw control character; an object
  keeps the last value of a repeated key; nothing but white space may follow the value.
  Its outcome is \<open>Beyond\<close> on a text that this decoder does not cover, where it says
  nothing about \<^verbatim>\<open>json.loads\<close>: a number with a fraction or an exponent (a float), an escape
  \<^verbatim>\<open>\u\<close> above 00FF (a character that \<^typ>\<open>char\<close> does not have), an integer of more than 4300
  digits (which the interpreter may refuse to convert), and a text with more than 64 opening
  brackets (whose nesting may exceed what the interpreter's recursion limit leaves). On
  every other text the outcome is \<open>Value\<close> with what \<^verbatim>\<open>json.loads\<close> returns, or \<open>Invalid\<close>
  where it raises.
\<close>

datatype 'a outcome = Value 'a | Invalid | Beyond

fun json_ws :: "string \<Rightarrow> string" where
  "json_ws [] = []"
| "json_ws (c # cs) =
     (if c = CHR '' '' \<or> c = CHR 0x09 \<or> c = CHR 0x0A \<or> c = CHR 0x0D
      then json_ws cs else c # cs)"

definition is_digit :: "char \<Rightarrow> bool" where
  "is_digit c = (c \<in> set ''0123456789'')"

definition hex_val :: "char \<Rightarrow> nat option" where
  "hex_val c = map_of (zip ''0123456789abcdefABCDEF''
     [0, 1, 2, 3, 4, 5, 6, 7, 8, 9, 10, 11, 12, 13, 14, 15, 10, 11, 12, 13, 14, 15]) c"

definition hex4 :: "char \<Rightarrow> char \<Rightarrow> char \<Rightarrow> char \<Rightarrow> nat option" where
  "hex4 a b c d =
     (case (hex_val a, hex_val b, hex_val c, hex_val d) of
        (Some w, Some x, Some y, Some z) \<Rightarrow> Some (((w * 16 + x) * 16 + y) * 16 + z)
      | _ \<Rightarrow> None)"

definition unescape :: "char \<Rightarrow> char option" where
  "unescape e = map_of
     [(CHR 0x22, CHR 0x22), (CHR 0x5C, CHR 0x5C), (CHR ''/'', CHR ''/''),
      (CHR ''b'', CHR 0x08), (CHR ''f'', CHR 0x0C), (CHR ''n'', CHR 0x0A),
      (CHR ''r'', CHR 0x0D), (CHR ''t'', CHR 0x09)] e"

text \<open>The characters after an opening quote, up to the closing one.\<close>

fun scan_string :: "string \<Rightarrow> string \<Rightarrow> (string \<times> string) outcome" where
  "scan_string [] acc = Invalid"
| "scan_string (c # cs) acc =
     (if c = CHR 0x22 then Value (acc, cs)
      else if c = CHR 0x5C then
        (case cs of
           [] \<Rightarrow> Invalid
         | e # cs1 \<Rightarrow>
             if e = CHR ''u'' then
               (case cs1 of
                  h1 # h2 # h3 # h4 # cs2 \<Rightarrow>
                    (case hex4 h1 h2 h3 h4 of
                       None \<Rightarrow> Invalid
                     | Some n \<Rightarrow>
                         if n < 256 then scan_string cs2 (acc @ [char_of n]) else Beyond)
                | _ \<Rightarrow> Invalid)
             else
               (case unescape e of
                  None \<Rightarrow> Invalid
                | Some d \<Rightarrow> scan_string cs1 (acc @ [d])))
      else if (of_char c :: nat) < 32 then Invalid
      else scan_string cs (acc @ [c]))"

fun dec_val :: "string \<Rightarrow> nat \<Rightarrow> nat" where
  "dec_val [] acc = acc"
| "dec_val (c # cs) acc = dec_val cs (acc * 10 + ((of_char c :: nat) - 48))"

text \<open>
  A number: \<^verbatim>\<open>-?(0|[1-9][0-9]*)\<close>, a float (outside this decoder) when a fraction
  \<^verbatim>\<open>\.[0-9]+\<close> or an exponent \<^verbatim>\<open>[eE][-+]?[0-9]+\<close> follows.
\<close>

definition is_float_tail :: "string \<Rightarrow> bool" where
  "is_float_tail s =
     (case s of
        [] \<Rightarrow> False
      | c # cs \<Rightarrow>
          if c = CHR ''.'' then (case cs of [] \<Rightarrow> False | d # _ \<Rightarrow> is_digit d)
          else if c = CHR ''e'' \<or> c = CHR ''E'' then
            (case cs of
               [] \<Rightarrow> False
             | d # ds \<Rightarrow>
                 if d = CHR ''+'' \<or> d = CHR ''-''
                 then (case ds of [] \<Rightarrow> False | x # _ \<Rightarrow> is_digit x)
                 else is_digit d)
          else False)"

definition scan_number :: "string \<Rightarrow> (pyval \<times> string) outcome" where
  "scan_number s =
     (let neg = (s \<noteq> [] \<and> hd s = CHR ''-'');
          s1 = (if neg then tl s else s)
      in case s1 of
           [] \<Rightarrow> Invalid
         | d # ds \<Rightarrow>
             if \<not> is_digit d then Invalid
             else
               (let ipart = (if d = CHR ''0'' then [d] else d # takeWhile is_digit ds);
                    rest = (if d = CHR ''0'' then ds else dropWhile is_digit ds)
                in if is_float_tail rest \<or> length ipart > 4300 then Beyond
                   else Value (PyInt ((if neg then -1 else 1) * int (dec_val ipart 0)), rest)))"

text \<open>\<^verbatim>\<open>d[k] = v\<close> on an insertion-ordered dictionary.\<close>

fun dict_set :: "(pyval \<times> pyval) list \<Rightarrow> pyval \<Rightarrow> pyval \<Rightarrow> (pyval \<times> pyval) list" where
  "dict_set [] k v = [(k, v)]"
| "dict_set (p # ps) k v = (if fst p = k then (k, v) # ps else p # dict_set ps k v)"

text \<open>The first of the words \<open>ws\<close> that the text starts with, its value and the text after it.\<close>

definition literals :: "(string \<times> pyval) list \<Rightarrow> string \<Rightarrow> (pyval \<times> string) option" where
  "literals ws s =
     (case filter (\<lambda>p. take (length (fst p)) s = fst p) ws of
        [] \<Rightarrow> None
      | p # _ \<Rightarrow> Some (snd p, drop (length (fst p)) s))"

text \<open>
  The scanner proper. \<open>scan_once\<close> reads one value; \<open>scan_array\<close> stands at an element,
  \<open>scan_object\<close> at the opening quote of a key. Every call uses up one unit of fuel.
\<close>

fun scan_once :: "nat \<Rightarrow> string \<Rightarrow> (pyval \<times> string) outcome"
  and scan_array :: "nat \<Rightarrow> string \<Rightarrow> pyval list \<Rightarrow> (pyval \<times> string) outcome"
  and scan_object :: "nat \<Rightarrow> string \<Rightarrow> (pyval \<times> pyval) list \<Rightarrow> (pyval \<times> string) outcome"
where
  "scan_once 0 s = Beyond"
| "scan_once (Suc k) s =
     (case s of
        [] \<Rightarrow> Invalid
      | c # cs \<Rightarrow>
          if c = CHR 0x22 then
            (case scan_string cs [] of
               Value (str, rest) \<Rightarrow> Value (PyStr str, rest)
             | Invalid \<Rightarrow> Invalid
             | Beyond \<Rightarrow> Beyond)
          else if c = CHR ''{'' then
            (case json_ws cs of
               [] \<Rightarrow> Invalid
             | d # rest \<Rightarrow>
                 if d = CHR ''}'' then Value (PyDict [], rest)
                 else if d = CHR 0x22 then scan_object k (d # rest) []
                 else Invalid)
          else if c = CHR ''['' then
            (case json_ws cs of
               [] \<Rightarrow> Invalid
             | d # rest \<Rightarrow>
                 if d = CHR '']'' then Value (PyList [], rest)
                 else scan_array k (d # rest) [])
          else
            (case literals [(''null'', PyNone), (''true'', PyBool True),
                            (''false'', PyBool False)] s of
               Some r \<Rightarrow> Value r
             | None \<Rightarrow>
                 if is_digit c \<or> (c = CHR ''-'' \<and> cs \<noteq> [] \<and> is_digit (hd cs))
                 then scan_number s
                 else
                   (case literals [(''NaN'', PyFloat ''nan''), (''Infinity'', PyFloat ''inf''),
                                   (''-Infinity'', PyFloat ''-inf'')] s of
                      Some r \<Rightarrow> Value r
                    | None \<Rightarrow> Invalid)))"
| "scan_array 0 s acc = Beyond"
| "scan_array (Suc k) s acc =
     (case scan_once k s of
        Value (v, rest) \<Rightarrow>
          (case json_ws rest of
             [] \<Rightarrow> Invalid
           | d # r1 \<Rightarrow>
               if d = CHR '']'' then Value (PyList (acc @ [v]), r1)
               else if d = CHR '','' then scan_array k (json_ws r1) (acc @ [v])
               else Invalid)
      | Invalid \<Rightarrow> Invalid
      | Beyond \<Rightarrow> Beyond)"
| "scan_object 0 s acc = Beyond"
| "scan_object (Suc k) s acc =
     (case s of
        [] \<Rightarrow> Invalid
      | q # cs \<Rightarrow>
          if q \<noteq> CHR 0x22 then Invalid
          else
            (case scan_string cs [] of
               Value (key, rest) \<Rightarrow>
                 (case json_ws rest of
                    [] \<Rightarrow> Invalid
                  | d # r1 \<Rightarrow>
                      if d \<noteq> CHR '':'' then Invalid
                      else
                        (case scan_once k (json_ws r1) of
                           Value (v, r2) \<Rightarrow>
                             (case json_ws r2 of
                                [] \<Rightarrow> Invalid
                              | e # r3 \<Rightarrow>
                                  if e = CHR ''}''
                                    then Value (PyDict (dict_set acc (PyStr key) v), r3)
                                  else if e = CHR '',''
                                    then scan_object k (json_ws r3) (dict_set acc (PyStr key) v)
                                  else Invalid)
                         | Invalid \<Rightarrow> Invalid
                         | Beyond \<Rightarrow> Beyond))
             | Invalid \<Rightarrow> Invalid
             | Beyond \<Rightarrow> Beyond))"

text \<open>
  The whole text: one value, with white space around it. The brackets are counted first;
  the fuel is one more than the length of the text, and a scan that used it up would be
  \<open>Beyond\<close> too.
\<close>

definition json_decode :: "string \<Rightarrow> pyval outcome" where
  "json_decode s =
     (if length (filter (\<lambda>c. c = CHR ''['' \<or> c = CHR ''{'') s) > 64 then Beyond
      else
        (case scan_once (Suc (length s)) (json_ws s) of
           Value (v, rest) \<Rightarrow> (if json_ws rest = [] then Value v else Invalid)
         | Invalid \<Rightarrow> Invalid
         | Beyond \<Rightarrow> Beyond))"

text \<open>
  The decoder that the closed examples hand to the parsers: the value where \<open>json_decode\<close>
  gives one, and None otherwise. It is \<^verbatim>\<open>json.loads\<close> under \<^verbatim>\<open>_safe_json_loads\<close> on every text
  where \<open>json_decode\<close> is \<open>Value\<close> or \<open>Invalid\<close>. Where \<open>json_decode\<close> is \<open>Beyond\<close> its None says
  nothing about \<^verbatim>\<open>json.loads\<close>, and no example decodes such a text: each example states the
  outcome of \<open>json_decode\<close>, or the value of \<open>json_loads\<close>, at the texts it decodes.
\<close>

definition json_loads :: "string \<Rightarrow> pyval option" where
  "json_loads s = (case json_decode s of Value v \<Rightarrow> Some v | _ \<Rightarrow> None)"

section \<open>The response normalizer (\<^verbatim>\<open>services/parsers.py\<close>)\<close>

record Card =
  card_id :: string
  title :: string
  content :: string
  kind :: string

text \<open>\<^verbatim>\<open>_safe_json_loads\<close>: the decoded value, None when the decoder raises.\<close>

definition safe_json_loads :: "(string \<Rightarrow> pyval option) \<Rightarrow> string \<Rightarrow> pyval" where
  "safe_json_loads loads text = (case loads text of None \<Rightarrow> PyNone | Some v \<Rightarrow> v)"

text \<open>The text before and after the first occurrence of \<open>pat\<close>.\<close>

fun split_first :: "string \<Rightarrow> string \<Rightarrow> (string \<times> string) option" where
  "split_first pat [] = (if pat = [] then Some ([], []) else None)"
| "split_first pat (c # cs) =
     (if take (length pat) (c # cs) = pat then Some ([], drop (length pat) (c # cs))
      else map_option (\<lambda>p. (c # fst p, snd p)) (split_first pat cs))"

text \<open>
  Group 1 of \<^verbatim>\<open>re.search(r"```json\s*([\s\S]*?)\s*```", text)\<close>. The search matches at the
  first \<^verbatim>\<open>```json\<close> that has a \<^verbatim>\<open>```\<close> somewhere after it; a back quote is not white space,
  so the greedy \<^verbatim>\<open>\s*\<close> takes all the white space after the tag, the lazy group stops at the
  first \<^verbatim>\<open>```\<close> that follows, and the second \<^verbatim>\<open>\s*\<close> takes the white space before it: the
  group is the text between the tag and that \<^verbatim>\<open>```\<close>, stripped on both sides.
\<close>

definition fence_search :: "string \<Rightarrow> string option" where
  "fence_search text =
     (case split_first ''```json'' text of
        None \<Rightarrow> None
      | Some (before, rest) \<Rightarrow>
          (case split_first ''```'' rest of
             None \<Rightarrow> None
           | Some (body, after) \<Rightarrow> Some (py_strip body)))"

text \<open>The candidate of the first stage: \<^verbatim>\<open>text[start : end + 1]\<close>, when both braces are found.\<close>

definition brace_candidate :: "string \<Rightarrow> string option" where
  "brace_candidate text =
     (let start = py_find CHR ''{'' text;
          end' = py_rfind CHR ''}'' text
      in if start \<noteq> -1 \<and> end' \<noteq> -1 \<and> end' > start
         then Some (py_slice text start (end' + 1)) else None)"

definition extract_json_block :: "(string \<Rightarrow> pyval option) \<Rightarrow> string \<Rightarrow> pyval" where
  "extract_json_block loads text =
     (let first = (case brace_candidate text of
                     None \<Rightarrow> PyNone
                   | Some candidate \<Rightarrow> safe_json_loads loads candidate)
      in if first \<noteq> PyNone then first
         else (case fence_search text of
                 None \<Rightarrow> PyNone
               | Some candidate \<Rightarrow> safe_json_loads loads candidate))"

text \<open>
  The expression \<^verbatim>\<open>Card(id=str(item.get("id") or uuid.uuid4()), title=str(item.get("title")
  or default_title), content=str(item.get("content") or ""), kind=str(item.get("kind") or
  "text"))\<close> of both parsers. Only a dictionary has \<^verbatim>\<open>get\<close>: on any other item the first
  \<^verbatim>\<open>item.get\<close> raises AttributeError. \<open>uuid4 n\<close> is the string of the \<open>n\<close>-th identifier that
  \<^verbatim>\<open>uuid.uuid4()\<close> returns during the call; the count of identifiers drawn is passed on.
\<close>

definition make_card ::
  "(nat \<Rightarrow> string) \<Rightarrow> string \<Rightarrow> pyval \<Rightarrow> nat \<Rightarrow> (py_error + Card) \<times> nat" where
  "make_card uuid4 default_title item n =
     (case item of
        PyDict kv \<Rightarrow>
          (Inr \<lparr>card_id = (if truthy (dict_get kv ''id'') then py_str (dict_get kv ''id'')
                           else uuid4 n),
                title = py_str (py_or (dict_get kv ''title'') (PyStr default_title)),
                content = py_str (py_or (dict_get kv ''content'') (PyStr '''')),
                kind = py_str (py_or (dict_get kv ''kind'') (PyStr ''text''))\<rparr>,
           if truthy (dict_get kv ''id'') then n else Suc n)
      | _ \<Rightarrow> (Inl AttributeError, n))"

text \<open>What \<^verbatim>\<open>enumerate(x)\<close> iterates over; a value that is not iterable raises TypeError.\<close>

definition py_iter :: "pyval \<Rightarrow> py_error + pyval list" where
  "py_iter v =
     (case v of
        PyList xs \<Rightarrow> Inr xs
      | PyStr s \<Rightarrow> Inr (map (\<lambda>c. PyStr [c]) s)
      | PyDict kv \<Rightarrow> Inr (map fst kv)
      | _ \<Rightarrow> Inl TypeError)"

text \<open>The loop \<^verbatim>\<open>for idx, item in enumerate(...)\<close>, appending to \<open>cards\<close>.\<close>

fun cards_loop ::
  "(nat \<Rightarrow> string) \<Rightarrow> nat \<Rightarrow> pyval list \<Rightarrow> Card list \<Rightarrow> nat \<Rightarrow> (py_error + Card list) \<times> nat" where
  "cards_loop uuid4 idx [] cards n = (Inr cards, n)"
| "cards_loop uuid4 idx (item # items) cards n =
     (case make_card uuid4 (''Card '' @ nat_str (idx + 1)) item n of
        (Inl e, n') \<Rightarrow> (Inl e, n')
      | (Inr c, n') \<Rightarrow> cards_loop uuid4 (idx + 1) items (cards @ [c]) n')"

definition parse_cards_from_text ::
  "(string \<Rightarrow> pyval option) \<Rightarrow> (nat \<Rightarrow> string) \<Rightarrow> string
     \<Rightarrow> py_error + (Card list \<times> (pyval \<times> pyval) list)" where
  "parse_cards_from_text loads uuid4 text =
     (let meta = [];
          parsed = extract_json_block loads text;
          fallback = (\<lambda>n. \<lparr>card_id = uuid4 n, title = ''Response'',
                             content = py_strip text, kind = ''text''\<rparr>)
      in case parsed of
           PyDict kv \<Rightarrow>
             if truthy parsed \<and> map_of kv (PyStr ''cards'') \<noteq> None then
               (case py_iter (py_or (dict_get kv ''cards'') (PyList [])) of
                  Inl e \<Rightarrow> Inl e
                | Inr items \<Rightarrow>
                    (case cards_loop uuid4 0 items [] 0 of
                       (Inl e, n) \<Rightarrow> Inl e
                     | (Inr cards, n) \<Rightarrow>
                         if cards \<noteq> [] then Inr (cards, meta)
                         else Inr ([fallback n], meta)))
             else Inr ([fallback 0], meta)
         | _ \<Rightarrow> Inr ([fallback 0], meta))"

definition parse_followup_from_text ::
  "(string \<Rightarrow> pyval option) \<Rightarrow> (nat \<Rightarrow> string) \<Rightarrow> string \<Rightarrow> py_error + Card" where
  "parse_followup_from_text loads uuid4 text =
     (let parsed = extract_json_block loads text;
          fallback = \<lparr>card_id = uuid4 0, title = ''Clarification'',
                      content = py_strip text, kind = ''text''\<rparr>
      in case parsed of
           PyDict kv \<Rightarrow>
             (case map_of kv (PyStr ''card'') of
                Some item \<Rightarrow>
                  if truthy parsed then fst (make_card uuid4 ''Clarification'' item 0)
                  else Inr fallback
              | None \<Rightarrow> Inr fallback)
         | _ \<Rightarrow> Inr fallback)"

section \<open>Configuration and provider resolution (\<^verbatim>\<open>config.py\<close>)\<close>

record ModelsConfig =
  default_provider :: string
  providers :: "string \<rightharpoonup> string list"

text \<open>\<^verbatim>\<open>d.get(k, dflt)\<close> on any value: only a dictionary has \<^verbatim>\<open>get\<close>.\<close>

definition py_get :: "pyval \<Rightarrow> string \<Rightarrow> pyval \<Rightarrow> py_error + pyval" where
  "py_get d k dflt =
     (case d of
        PyDict kv \<Rightarrow> Inr (case map_of kv (PyStr k) of None \<Rightarrow> dflt | Some v \<Rightarrow> v)
      | _ \<Rightarrow> Inl AttributeError)"

text \<open>The three branches on \<^verbatim>\<open>isinstance(models, list)\<close> and \<^verbatim>\<open>isinstance(models, str)\<close>.\<close>

definition model_list :: "pyval \<Rightarrow> string list" where
  "model_list v = (case v of PyList ms \<Rightarrow> map py_str ms | PyStr s \<Rightarrow> [s] | _ \<Rightarrow> [])"

text \<open>The loop over \<^verbatim>\<open>providers.items()\<close>: a later entry overwrites an earlier one.\<close>

fun normalize_loop ::
  "(pyval \<times> pyval) list \<Rightarrow> (string \<rightharpoonup> string list) \<Rightarrow> (string \<rightharpoonup> string list)" where
  "normalize_loop [] normalized = normalized"
| "normalize_loop (entry # rest) normalized =
     normalize_loop rest (normalized(py_lower (py_str (fst entry)) \<mapsto> model_list (snd entry)))"

definition build_models_config :: "pyval \<Rightarrow> py_error + ModelsConfig" where
  "build_models_config raw =
     (case py_get raw ''models'' (PyDict []) of
        Inl e \<Rightarrow> Inl e
      | Inr models_section \<Rightarrow>
          (case py_get models_section ''default_provider'' (PyStr ''mock'') of
             Inl e \<Rightarrow> Inl e
           | Inr dp \<Rightarrow>
               (case py_get models_section ''providers'' (PyDict []) of
                  Inl e \<Rightarrow> Inl e
                | Inr pv \<Rightarrow>
                    (case py_or pv (PyDict []) of
                       PyDict entries \<Rightarrow>
                         (let normalized = normalize_loop entries Map.empty;
                              normalized' = (if normalized ''mock'' = None
                                             then normalized(''mock'' \<mapsto> [''mock-model''])
                                             else normalized);
                              default_provider' = py_lower (py_str dp)
                          in Inr \<lparr>default_provider =
                                    (if normalized' default_provider' = None then ''mock''
                                     else default_provider'),
                                  providers = normalized'\<rparr>)
                     | _ \<Rightarrow> Inl AttributeError))))"

record Settings =
  openai_api_key :: "string option"
  gemini_api_key :: "string option"
  deepseek_api_key :: "string option"
  models :: ModelsConfig

text \<open>\<^verbatim>\<open>xs[0]\<close>.\<close>

definition py_index0 :: "'a list \<Rightarrow> py_error + 'a" where
  "py_index0 xs = (case xs of [] \<Rightarrow> Inl IndexError | x # _ \<Rightarrow> Inr x)"

text \<open>Truth of an optional string: None and the empty string are false.\<close>

definition str_truthy :: "string option \<Rightarrow> bool" where
  "str_truthy s = (case s of None \<Rightarrow> False | Some t \<Rightarrow> t \<noteq> [])"

definition resolve_provider_and_model ::
  "Settings \<Rightarrow> string option \<Rightarrow> string option \<Rightarrow> py_error + (string \<times> string)" where
  "resolve_provider_and_model settings provider model_override =
     (let dflt = default_provider (models settings);
          requested = py_lower (case provider of
                                  None \<Rightarrow> dflt
                                | Some p \<Rightarrow> if p = [] then dflt else p);
          found = providers (models settings) requested;
          unknown = (found = None \<or> found = Some []);
          chosen_provider = (if unknown then ''mock'' else requested);
          provider_models =
            (if unknown
             then (case providers (models settings) ''mock'' of
                     None \<Rightarrow> [''mock-model'']
                   | Some ms \<Rightarrow> ms)
             else (case found of None \<Rightarrow> [] | Some ms \<Rightarrow> ms));
          first_model =
            (if provider_models \<noteq> []
             then (case py_index0 provider_models of
                     Inl e \<Rightarrow> Inl e
                   | Inr model_name \<Rightarrow> Inr (chosen_provider, model_name))
             else Inr (chosen_provider, ''mock-model''))
      in case model_override of
           None \<Rightarrow> first_model
         | Some m \<Rightarrow> if m = [] then first_model else Inr (chosen_provider, m))"

section \<open>The provider client (\<^verbatim>\<open>services/llm_client.py\<close>)\<close>

text \<open>
  The three provider methods call the vendors' SDKs over the network. Each is a parameter
  here: a function from the request to the text and the two token counts, or to the error
  it raises. \<open>generate\<close> returns its result together with the provider calls it made, in
  order. The temperature is only passed on; its type is left open. \<open>elapsed_ms\<close> is the
  reading of the clock in the \<^verbatim>\<open>finally\<close> block.
\<close>

record 't request =
  system_prompt :: string
  user_prompt :: string
  request_model :: string
  temperature :: 't
  max_tokens :: int

type_synonym 't provider_method = "'t request \<Rightarrow> py_error + (string \<times> int option \<times> int option)"

record 't sdk =
  openai_chat :: "'t provider_method"
  gemini_generate :: "'t provider_method"
  deepseek_chat :: "'t provider_method"

record Usage =
  input_tokens :: "int option"
  output_tokens :: "int option"
  latency_ms :: int
  usage_provider :: string
  usage_model :: string

text \<open>\<^verbatim>\<open>_mock\<close>: \<^verbatim>\<open>json.dumps\<close> of the two fixed cards, and zero token counts.\<close>

definition mock_text :: string where
  "mock_text = ''{\"cards\": [{\"id\": \"overview\", \"title\": \"Overview\", \"content\": \"This is a mock response demonstrating the card layout.\", \"kind\": \"text\"}, {\"id\": \"step-1\", \"title\": \"Step 1\", \"content\": \"Explain step one clearly and concisely.\", \"kind\": \"text\"}]}''"

definition mock :: "py_error + (string \<times> int option \<times> int option)" where
  "mock = Inr (mock_text, Some 0, Some 0)"

definition key_message :: "string \<Rightarrow> string" where
  "key_message name =
     name @ '' is not set. Please add it to your .env or switch provider to 'mock'.''"

definition generate ::
  "Settings \<Rightarrow> 't sdk \<Rightarrow> int \<Rightarrow> string \<Rightarrow> string \<Rightarrow> string option \<Rightarrow> string option \<Rightarrow> 't \<Rightarrow> int
     \<Rightarrow> (py_error + (string \<times> Usage)) \<times> (string \<times> 't request) list" where
  "generate settings sdk elapsed_ms system user provider model temp max_tok =
     (case resolve_provider_and_model settings provider model of
        Inl e \<Rightarrow> (Inl e, [])
      | Inr (provider_name, model_name) \<Rightarrow>
          (let req = \<lparr>system_prompt = system, user_prompt = user, request_model = model_name,
                      temperature = temp, max_tokens = max_tok\<rparr>;
               normalize = (\<lambda>r. case r of
                               Inl e \<Rightarrow> Inl e
                             | Inr (text, inp, out) \<Rightarrow>
                                 Inr (text, \<lparr>input_tokens = inp, output_tokens = out,
                                             latency_ms = elapsed_ms,
                                             usage_provider = provider_name,
                                             usage_model = model_name\<rparr>))
           in if provider_name = ''openai'' then
                (if \<not> str_truthy (openai_api_key settings)
                 then (Inl (RuntimeError (key_message ''OPENAI_API_KEY'')), [])
                 else (normalize (openai_chat sdk req), [(''openai'', req)]))
              else if provider_name = ''gemini'' then
                (if \<not> str_truthy (gemini_api_key settings)
                 then (Inl (RuntimeError (key_message ''GEMINI_API_KEY'')), [])
                 else (normalize (gemini_generate sdk req), [(''gemini'', req)]))
              else if provider_name = ''deepseek'' then
                (if \<not> str_truthy (deepseek_api_key settings)
                 then (Inl (RuntimeError (key_message ''DEEPSEEK_API_KEY'')), [])
                 else (normalize (deepseek_chat sdk req), [(''deepseek'', req)]))
              else (normalize mock, [])))"

section \<open>Closed forms used in the statements, and example data\<close>

text \<open>
  What the card expression computes for a dictionary item, written per field: the rendered
  value when the field holds a true value, the default otherwise. \<open>card_at\<close> is the card the
  generation loop appends for the item at index \<open>i\<close>, when the loop started at index \<open>idx\<close>
  with \<open>n\<close> identifiers drawn: an item without a usable id takes the next identifier.
\<close>

definition item_fields :: "pyval \<Rightarrow> (pyval \<times> pyval) list" where
  "item_fields item = (case item of PyDict kv \<Rightarrow> kv | _ \<Rightarrow> [])"

definition is_dict :: "pyval \<Rightarrow> bool" where
  "is_dict item = (case item of PyDict kv \<Rightarrow> True | _ \<Rightarrow> False)"

definition lacks_id :: "pyval \<Rightarrow> bool" where
  "lacks_id item = (\<not> truthy (dict_get (item_fields item) ''id''))"

definition field_or :: "pyval \<Rightarrow> string \<Rightarrow> string \<Rightarrow> string" where
  "field_or item k d =
     (if truthy (dict_get (item_fields item) k) then py_str (dict_get (item_fields item) k) else d)"

definition card_at :: "(nat \<Rightarrow> string) \<Rightarrow> nat \<Rightarrow> nat \<Rightarrow> pyval list \<Rightarrow> nat \<Rightarrow> Card" where
  "card_at uuid4 idx n items i =
     \<lparr>card_id = field_or (items ! i) ''id'' (uuid4 (n + length (filter lacks_id (take i items)))),
      title = field_or (items ! i) ''title'' (''Card '' @ nat_str (idx + i + 1)),
      content = field_or (items ! i) ''content'' '''',
      kind = field_or (items ! i) ''kind'' ''text''\<rparr>"

text \<open>A supply of identifiers for the examples: \<^verbatim>\<open>uuid-0\<close>, \<^verbatim>\<open>uuid-1\<close>, ...\<close>

definition example_uuid4 :: "nat \<Rightarrow> string" where
  "example_uuid4 n = ''uuid-'' @ nat_str n"

text \<open>
  Texts for the examples. \<open>three_cards_text\<close> is an object whose cards lack fields;
  \<open>two_fences_text\<close> has a stray brace in a first fenced block and a well-formed object in
  a second one; \<open>fenced_text\<close> has prose with braces before a single fenced block.
\<close>

definition three_cards_text :: string where
  "three_cards_text = ''{\"cards\":[{\"title\":\"A\",\"content\":\"B\"},{\"id\":\"x\"},{}]}''"

definition three_cards_items :: "pyval list" where
  "three_cards_items =
     [PyDict [(PyStr ''title'', PyStr ''A''), (PyStr ''content'', PyStr ''B'')],
      PyDict [(PyStr ''id'', PyStr ''x'')],
      PyDict []]"

definition good_block :: string where
  "good_block = ''{\"cards\":[{\"title\":\"A\"}]}''"

definition two_fences_text :: string where
  "two_fences_text = ''```json {oops ``` '' @ ''```json '' @ good_block @ '' ```''"

definition fenced_text :: string where
  "fenced_text = ''Sure {here}: '' @ ''```json '' @ good_block @ '' ```''"


definition falsy_item :: "(pyval \<times> pyval) list" where
  "falsy_item = [(PyStr ''id'', PyStr ''''), (PyStr ''title'', PyStr ''''),
                 (PyStr ''content'', PyInt 0), (PyStr ''kind'', PyStr ''''),
                 (PyStr ''extra'', PyNone)]"

text \<open>
  A \<^verbatim>\<open>cards\<close> array for the false values: its first element is \<open>falsy_item\<close>, its second has
  true values that are not strings, its third has null and \<^verbatim>\<open>false\<close> and no title. The
  follow-up text has \<open>falsy_item\<close> under \<^verbatim>\<open>card\<close>.
\<close>

definition truthy_item :: "(pyval \<times> pyval) list" where
  "truthy_item = [(PyStr ''id'', PyInt 7), (PyStr ''title'', PyBool True),
                  (PyStr ''content'', PyList [PyInt 1, PyStr ''a'']),
                  (PyStr ''kind'', PyStr ''note'')]"

definition null_item :: "(pyval \<times> pyval) list" where
  "null_item = [(PyStr ''id'', PyNone), (PyStr ''content'', PyBool False),
                (PyStr ''kind'', PyNone)]"

definition falsy_cards_items :: "pyval list" where
  "falsy_cards_items = [PyDict falsy_item, PyDict truthy_item, PyDict null_item]"

definition falsy_cards_text :: string where
  "falsy_cards_text = ''{\"cards\":[''
     @ ''{\"id\":\"\",\"title\":\"\",\"content\":0,\"kind\":\"\",\"extra\":null},''
     @ ''{\"id\":7,\"title\":true,\"content\":[1,\"a\"],\"kind\":\"note\"},''
     @ ''{\"id\":null,\"content\":false,\"kind\":null}]}''"

definition falsy_followup_text :: string where
  "falsy_followup_text =
     ''{\"card\":{\"id\":\"\",\"title\":\"\",\"content\":0,\"kind\":\"\",\"extra\":null}}''"

text \<open>
  \<^verbatim>\<open>settings = Settings()\<close>: the models come from the raw configuration, the three keys from
  the environment.
\<close>

definition load_settings ::
  "pyval \<Rightarrow> string option \<Rightarrow> string option \<Rightarrow> string option \<Rightarrow> py_error + Settings" where
  "load_settings raw openai_key gemini_key deepseek_key =
     (case build_models_config raw of
        Inl e \<Rightarrow> Inl e
      | Inr cfg \<Rightarrow> Inr \<lparr>openai_api_key = openai_key, gemini_api_key = gemini_key,
                         deepseek_api_key = deepseek_key, models = cfg\<rparr>)"

text \<open>
  Raw configurations: \<open>no_config\<close> is what \<^verbatim>\<open>_load_yaml_config\<close> returns without a
  \<^verbatim>\<open>config.yaml\<close>; \<open>empty_mock_config\<close> maps \<^verbatim>\<open>mock\<close> to an empty list;
  \<open>empty_default_config\<close> names a default provider that has no model; \<open>sample_config\<close> has
  mixed-case keys, a model given as a string and two entries for \<^verbatim>\<open>mock\<close>.
\<close>

definition no_config :: pyval where
  "no_config = PyDict []"

definition empty_mock_config :: pyval where
  "empty_mock_config =
     PyDict [(PyStr ''models'',
              PyDict [(PyStr ''providers'', PyDict [(PyStr ''mock'', PyList [])])])]"

definition empty_default_config :: pyval where
  "empty_default_config =
     PyDict [(PyStr ''models'',
              PyDict [(PyStr ''default_provider'', PyStr ''openai''),
                      (PyStr ''providers'', PyDict [(PyStr ''openai'', PyList [])])])]"

definition sample_entries :: "(pyval \<times> pyval) list" where
  "sample_entries =
     [(PyStr ''OpenAI'', PyList [PyStr ''gpt-4o'', PyStr ''gpt-4o-mini'']),
      (PyStr ''gemini'', PyStr ''gemini-pro''),
      (PyStr ''Mock'', PyList [PyStr ''m1'']),
      (PyStr ''mock'', PyList [PyStr ''m2'', PyStr ''m3''])]"

definition sample_models_section :: pyval where
  "sample_models_section =
     PyDict [(PyStr ''default_provider'', PyStr ''OpenAI''),
             (PyStr ''providers'', PyDict sample_entries)]"

definition sample_config :: pyval where
  "sample_config = PyDict [(PyStr ''models'', sample_models_section)]"

text \<open>
  Settings with the models of \<open>sample_config\<close>, no OpenAI key, an empty Gemini key and a
  DeepSeek key; and provider methods that would answer if they were called.
\<close>

definition sample_settings :: Settings where
  "sample_settings =
     \<lparr>openai_api_key = None, gemini_api_key = Some '''', deepseek_api_key = Some ''sk-1'',
      models = \<lparr>default_provider = ''openai'',
                providers = [''openai'' \<mapsto> [''gpt-4o'', ''gpt-4o-mini''],
                             ''gemini'' \<mapsto> [''gemini-pro''],
                             ''mock'' \<mapsto> [''m2'', ''m3'']]\<rparr>\<rparr>"

definition answering_sdk :: "nat sdk" where
  "answering_sdk = \<lparr>openai_chat = (\<lambda>r. Inr (''hello'', None, None)),
                     gemini_generate = (\<lambda>r. Inr (''hello'', None, None)),
                     deepseek_chat = (\<lambda>r. Inr (''hello'', None, None))\<rparr>"

section \<open>The card expression and the generation loop\<close>

lemma make_card_dict:
  "is_dict item \<Longrightarrow> make_card uuid4 dt item n =
     (Inr \<lparr>card_id = field_or item ''id'' (uuid4 n), title = field_or item ''title'' dt,
           content = field_or item ''content'' '''', kind = field_or item ''kind'' ''text''\<rparr>,
      if lacks_id item then Suc n else n)"
  by (cases item)
     (simp_all add: is_dict_def make_card_def field_or_def item_fields_def lacks_id_def py_or_def
        py_str_def)


lemma field_or_missing: "map_of (item_fields item) (PyStr k) = None \<Longrightarrow> field_or item k d = d"
  by (simp add: field_or_def dict_get_def)

lemma cards_loop_dicts:
  "\<forall>it\<in>set items. is_dict it \<Longrightarrow>
     cards_loop uuid4 idx items acc n =
       (Inr (acc @ map (card_at uuid4 idx n items) [0..<length items]),
        n + length (filter lacks_id items))"
proof (induction items arbitrary: idx acc n)
  case Nil
  then show ?case by simp
next
  case (Cons x xs)
  define n' where "n' = (if lacks_id x then Suc n else n)"
  from Cons.prems have x: "is_dict x" and xs: "\<forall>it\<in>set xs. is_dict it" by simp_all
  have step: "make_card uuid4 (''Card '' @ nat_str (idx + 1)) x n =
      (Inr (card_at uuid4 idx n (x # xs) 0), n')"
    by (simp add: make_card_dict[OF x] card_at_def n'_def)
  have shift: "map (card_at uuid4 idx n (x # xs)) [0..<length (x # xs)] =
      card_at uuid4 idx n (x # xs) 0 # map (card_at uuid4 (idx + 1) n' xs) [0..<length xs]"
    by (simp add: map_upt_Suc card_at_def n'_def del: upt_Suc)
  have count: "n + length (filter lacks_id (x # xs)) = n' + length (filter lacks_id xs)"
    by (simp add: n'_def)
  have "cards_loop uuid4 idx (x # xs) acc n =
      cards_loop uuid4 (idx + 1) xs (acc @ [card_at uuid4 idx n (x # xs) 0]) n'"
    using step by simp
  also have "\<dots> = (Inr ((acc @ [card_at uuid4 idx n (x # xs) 0]) @
      map (card_at uuid4 (idx + 1) n' xs) [0..<length xs]), n' + length (filter lacks_id xs))"
    by (rule Cons.IH[OF xs])
  finally show ?case
    by (simp only: shift count append_assoc append_Cons append_Nil)
qed

lemma extract_braces:
  "brace_candidate text = Some c \<Longrightarrow> loads c = Some v \<Longrightarrow> v \<noteq> PyNone \<Longrightarrow>
     extract_json_block loads text = v"
  by (simp add: extract_json_block_def safe_json_loads_def)

lemma parse_cards_dicts:
  assumes "extract_json_block loads text = PyDict kv"
    and "map_of kv (PyStr ''cards'') = Some (PyList items)"
    and "items \<noteq> []"
    and "list_all is_dict items"
  shows "parse_cards_from_text loads uuid4 text =
     Inr (map (card_at uuid4 0 0 items) [0..<length items], [])"
proof -
  have kv: "kv \<noteq> []" using assms(2) by auto
  have it: "py_iter (py_or (dict_get kv ''cards'') (PyList [])) = Inr items"
    using assms(2,3) by (simp add: dict_get_def py_or_def py_iter_def)
  have loop: "cards_loop uuid4 0 items [] 0 =
      (Inr (map (card_at uuid4 0 0 items) [0..<length items]), length (filter lacks_id items))"
    using cards_loop_dicts[of items uuid4 0 "[]" 0] assms(4) by (simp add: list_all_iff)
  show ?thesis
    using assms(1,2,3) kv it loop
    by (simp add: parse_cards_from_text_def)
qed

lemma filter_take_mono:
  "i \<le> j \<Longrightarrow> length (filter P (take i xs)) \<le> length (filter P (take j xs))"
proof -
  assume "i \<le> j"
  then obtain k where "j = i + k" using le_Suc_ex by blast
  then show ?thesis by (simp add: take_add)
qed

lemma filter_take_less:
  assumes "i < j" and "j \<le> length xs" and "P (xs ! i)"
  shows "length (filter P (take i xs)) < length (filter P (take j xs))"
proof -
  have "i < length xs" using assms by simp
  then have "length (filter P (take (Suc i) xs)) = Suc (length (filter P (take i xs)))"
    using assms(3) by (simp add: take_Suc_conv_app_nth)
  moreover have "length (filter P (take (Suc i) xs)) \<le> length (filter P (take j xs))"
    using assms(1) by (intro filter_take_mono) simp
  ultimately show ?thesis by simp
qed

lemma parse_cards_fallback:
  assumes "extract_json_block loads text = PyNone
     \<or> (\<forall>kv. extract_json_block loads text = PyDict kv
            \<longrightarrow> map_of kv (PyStr ''cards'') = None)
     \<or> (\<exists>kv. extract_json_block loads text = PyDict kv
            \<and> map_of kv (PyStr ''cards'') = Some (PyList []))"
  shows "parse_cards_from_text loads uuid4 text =
     Inr ([\<lparr>card_id = uuid4 0, title = ''Response'', content = py_strip text,
            kind = ''text''\<rparr>], [])"
  using assms
  by (cases "extract_json_block loads text")
     (auto simp add: parse_cards_from_text_def dict_get_def py_or_def py_iter_def)

lemma extract_fence:
  "brace_candidate text = None
     \<or> (\<exists>c. brace_candidate text = Some c \<and> (loads c = None \<or> loads c = Some PyNone)) \<Longrightarrow>
   extract_json_block loads text =
     (case fence_search text of None \<Rightarrow> PyNone | Some w \<Rightarrow> safe_json_loads loads w)"
  by (auto simp add: extract_json_block_def safe_json_loads_def)

subsection \<open>Removing a field, and two runs of the loop\<close>

lemma map_of_remove:
  "map_of (filter (\<lambda>p. fst p \<noteq> K) kv) K' = (if K' = K then None else map_of kv K')"
  by (induction kv) auto

lemma dict_get_remove:
  "dict_get (filter (\<lambda>p. fst p \<noteq> PyStr k) kv) k' =
     (if k' = k then PyNone else dict_get kv k')"
  by (simp add: dict_get_def map_of_remove)

lemma make_card_remove:
  "\<not> truthy (dict_get kv k) \<Longrightarrow>
     make_card uuid4 dt (PyDict (filter (\<lambda>p. fst p \<noteq> PyStr k) kv)) n =
     make_card uuid4 dt (PyDict kv) n"
  by (simp add: make_card_def dict_get_remove py_or_def)

lemma cards_loop_same_cards:
  "(\<And>dt n. make_card uuid4 dt x n = make_card uuid4 dt y n) \<Longrightarrow>
     cards_loop uuid4 idx (pre @ x # post) acc n = cards_loop uuid4 idx (pre @ y # post) acc n"
  by (induction pre arbitrary: idx acc n) (simp_all split: prod.splits sum.splits)

lemma field_or_truthy:
  "truthy v \<Longrightarrow> map_of kv (PyStr k) = Some v \<Longrightarrow> field_or (PyDict kv) k d = py_str v"
  by (simp add: field_or_def item_fields_def dict_get_def)


subsection \<open>What a returned run says about the elements, and the fields of a card\<close>




lemma field_or_default:
  "map_of kv (PyStr k) = None \<or> (\<exists>v. map_of kv (PyStr k) = Some v \<and> \<not> truthy v) \<Longrightarrow>
     field_or (PyDict kv) k d = d"
  by (auto simp add: field_or_def item_fields_def dict_get_def)

lemma lacks_id_dict:
  "lacks_id (PyDict kv) =
     (map_of kv (PyStr ''id'') = None \<or> (\<exists>v. map_of kv (PyStr ''id'') = Some v \<and> \<not> truthy v))"
  by (auto simp add: lacks_id_def item_fields_def dict_get_def split: option.splits)

lemma card_at_fields:
  assumes "i < length items" and "items ! i = PyDict kv"
  shows "card_at uuid4 0 0 items i =
     \<lparr>card_id = field_or (PyDict kv) ''id'' (uuid4 (length (filter lacks_id (take i items)))),
      title = field_or (PyDict kv) ''title'' (''Card '' @ nat_str (i + 1)),
      content = field_or (PyDict kv) ''content'' '''',
      kind = field_or (PyDict kv) ''kind'' ''text''\<rparr>"
  using assms by (simp add: card_at_def)

lemma followup_dict:
  assumes "extract_json_block loads text = PyDict obj"
    and "map_of obj (PyStr ''card'') = Some (PyDict kv)"
  shows "parse_followup_from_text loads uuid4 text =
     Inr \<lparr>card_id = field_or (PyDict kv) ''id'' (uuid4 0),
          title = field_or (PyDict kv) ''title'' ''Clarification'',
          content = field_or (PyDict kv) ''content'' '''',
          kind = field_or (PyDict kv) ''kind'' ''text''\<rparr>"
proof -
  have "obj \<noteq> []" using assms(2) by auto
  then show ?thesis
    using assms
    by (simp add: parse_followup_from_text_def
          make_card_dict[of "PyDict kv", unfolded is_dict_def, simplified])
qed

subsection \<open>Lower case, and the normalized provider table\<close>

lemma lower_char_idem: "lower_char (lower_char c) = lower_char c"
  by (auto simp add: lower_char_def Let_def)

lemma py_lower_idem: "py_lower (py_lower s) = py_lower s"
  by (simp add: py_lower_def lower_char_idem)

lemma lower_mock: "py_lower ''mock'' = ''mock''"
  by code_simp

lemma lower_openai: "py_lower ''openai'' = ''openai''"
  by code_simp

lemma lower_unknown: "py_lower ''unknown-provider'' = ''unknown-provider''"
  by code_simp

lemma normalize_loop_lookup:
  "normalize_loop entries m k =
     (case filter (\<lambda>e. py_lower (py_str (fst e)) = k) entries of
        [] \<Rightarrow> m k
      | e # es \<Rightarrow> Some (model_list (snd (last (e # es)))))"
proof (induction entries arbitrary: m)
  case Nil
  then show ?case by simp
next
  case (Cons x xs)
  show ?case
    by (simp add: Cons.IH split: list.splits)
qed

lemma build_models_config_Inr:
  assumes "build_models_config raw = Inr cfg"
  obtains ms dp pv entries where
    "py_get raw ''models'' (PyDict []) = Inr ms"
    "py_get ms ''default_provider'' (PyStr ''mock'') = Inr dp"
    "py_get ms ''providers'' (PyDict []) = Inr pv"
    "py_or pv (PyDict []) = PyDict entries"
    "providers cfg =
       (if normalize_loop entries Map.empty ''mock'' = None
        then (normalize_loop entries Map.empty)(''mock'' \<mapsto> [''mock-model''])
        else normalize_loop entries Map.empty)"
    "default_provider cfg =
       (if providers cfg (py_lower (py_str dp)) = None then ''mock'' else py_lower (py_str dp))"
proof -
  from assms obtain ms where ms: "py_get raw ''models'' (PyDict []) = Inr ms"
    by (cases "py_get raw ''models'' (PyDict [])") (simp_all add: build_models_config_def)
  from assms ms obtain dp where dp: "py_get ms ''default_provider'' (PyStr ''mock'') = Inr dp"
    by (cases "py_get ms ''default_provider'' (PyStr ''mock'')")
       (simp_all add: build_models_config_def)
  from assms ms dp obtain pv where pv: "py_get ms ''providers'' (PyDict []) = Inr pv"
    by (cases "py_get ms ''providers'' (PyDict [])") (simp_all add: build_models_config_def)
  from assms ms dp pv obtain entries where en: "py_or pv (PyDict []) = PyDict entries"
    by (cases "py_or pv (PyDict [])") (simp_all add: build_models_config_def)
  from assms ms dp pv en have cfg: "cfg =
      \<lparr>default_provider =
         (if (if normalize_loop entries Map.empty ''mock'' = None
              then (normalize_loop entries Map.empty)(''mock'' \<mapsto> [''mock-model''])
              else normalize_loop entries Map.empty) (py_lower (py_str dp)) = None
          then ''mock'' else py_lower (py_str dp)),
       providers =
         (if normalize_loop entries Map.empty ''mock'' = None
          then (normalize_loop entries Map.empty)(''mock'' \<mapsto> [''mock-model''])
          else normalize_loop entries Map.empty)\<rparr>"
    by (simp add: build_models_config_def Let_def)
  show thesis
    by (rule that[OF ms dp pv en]) (simp_all add: cfg)
qed

lemma build_default_lower:
  assumes "build_models_config raw = Inr cfg"
  shows "py_lower (default_provider cfg) = default_provider cfg"
proof -
  from assms obtain dp where
    "default_provider cfg =
       (if providers cfg (py_lower (py_str dp)) = None then ''mock'' else py_lower (py_str dp))"
    by (rule build_models_config_Inr)
  then show ?thesis by (simp add: py_lower_idem lower_mock)
qed

subsection \<open>The example supply never repeats an identifier\<close>

lemma digit_back: "d < 10 \<Longrightarrow> (of_char (digit_char d) :: nat) - 48 = d"
proof -
  assume "d < 10"
  then have "d \<in> {0, 1, 2, 3, 4, 5, 6, 7, 8, 9}" by auto
  then show ?thesis by (auto simp add: digit_char_def)
qed

lemma dec_val_snoc: "dec_val (xs @ [c]) acc = dec_val xs acc * 10 + ((of_char c :: nat) - 48)"
  by (induction xs arbitrary: acc) simp_all

lemma dec_val_nat_str: "dec_val (nat_str n) 0 = n"
proof (induction n rule: nat_str.induct)
  case (1 n)
  show ?case
  proof (cases "n < 10")
    case True
    then show ?thesis by (simp add: nat_str.simps[of n] digit_back)
  next
    case False
    then have "dec_val (nat_str (n div 10)) 0 = n div 10" using "1.IH" by simp
    then show ?thesis using False
      by (simp add: nat_str.simps[of n] dec_val_snoc digit_back)
  qed
qed

lemma inj_nat_str: "inj nat_str"
  by (rule inj_on_inverseI[where g = "\<lambda>s. dec_val s 0"]) (simp add: dec_val_nat_str)

lemma inj_example_uuid4: "inj example_uuid4"
  using inj_nat_str by (auto simp add: inj_def example_uuid4_def)

section \<open>Cards from a well-formed object\<close>

text \<open>
  Claim C3. When the text from the first \<^verbatim>\<open>{\<close> to the last \<^verbatim>\<open>}\<close> decodes to an object whose
  \<^verbatim>\<open>cards\<close> value is a non-empty array of objects, \<open>parse_cards_from_text\<close> returns one card
  per element, in the order of the array. Each field is the rendered value of the element's
  field when that holds a true value, and the default otherwise, so a missing field takes
  the default: the title \<^verbatim>\<open>Card\<close> followed by the 1-based index, the empty content, the kind
  \<^verbatim>\<open>text\<close>, and as id the next identifier drawn from \<^verbatim>\<open>uuid.uuid4()\<close> (the \<open>k\<close>-th one for an
  element with \<open>k\<close> id-less elements before it). Two elements without id never share an
  identifier, as long as \<^verbatim>\<open>uuid4\<close> itself does not repeat one. This holds for every decoder.
\<close>

theorem cards_from_object:
  assumes "brace_candidate text = Some c"
    and "loads c = Some (PyDict kv)"
    and "map_of kv (PyStr ''cards'') = Some (PyList items)"
    and "items \<noteq> []"
    and "list_all is_dict items"
  shows "\<exists>cards. parse_cards_from_text loads uuid4 text = Inr (cards, [])
     \<and> length cards = length items
     \<and> (\<forall>i<length items. cards ! i =
          \<lparr>card_id = field_or (items ! i) ''id''
                       (uuid4 (length (filter lacks_id (take i items)))),
           title = field_or (items ! i) ''title'' (''Card '' @ nat_str (i + 1)),
           content = field_or (items ! i) ''content'' '''',
           kind = field_or (items ! i) ''kind'' ''text''\<rparr>)
     \<and> (\<forall>item k d. map_of (item_fields item) (PyStr k) = None \<longrightarrow> field_or item k d = d)
     \<and> (inj uuid4 \<longrightarrow>
          (\<forall>i j. i < j \<and> j < length items \<and> lacks_id (items ! i) \<and> lacks_id (items ! j)
             \<longrightarrow> card_id (cards ! i) \<noteq> card_id (cards ! j)))"
proof -
  let ?cards = "map (card_at uuid4 0 0 items) [0..<length items]"
  have ex: "extract_json_block loads text = PyDict kv"
    using assms(1,2) by (rule extract_braces) simp
  have res: "parse_cards_from_text loads uuid4 text = Inr (?cards, [])"
    using ex assms(3,4,5) by (rule parse_cards_dicts)
  have nth: "\<forall>i<length items. ?cards ! i =
          \<lparr>card_id = field_or (items ! i) ''id''
                       (uuid4 (length (filter lacks_id (take i items)))),
           title = field_or (items ! i) ''title'' (''Card '' @ nat_str (i + 1)),
           content = field_or (items ! i) ''content'' '''',
           kind = field_or (items ! i) ''kind'' ''text''\<rparr>"
    by (simp add: card_at_def)
  have fresh: "card_id (?cards ! i) \<noteq> card_id (?cards ! j)"
    if "inj uuid4" and "i < j" and "j < length items"
      and "lacks_id (items ! i)" and "lacks_id (items ! j)"
    for i j
  proof -
    have lt: "length (filter lacks_id (take i items)) < length (filter lacks_id (take j items))"
      using that(2,3,4) by (intro filter_take_less) simp_all
    have "card_id (?cards ! i) = uuid4 (length (filter lacks_id (take i items)))"
      using that(2,3,4) by (simp add: card_at_def field_or_def lacks_id_def)
    moreover have "card_id (?cards ! j) = uuid4 (length (filter lacks_id (take j items)))"
      using that(3,5) by (simp add: card_at_def field_or_def lacks_id_def)
    ultimately show ?thesis using lt that(1) by (auto dest: injD)
  qed
  show ?thesis
    using res nth fresh field_or_missing
    by (intro exI[of _ ?cards]) (simp del: upt_Suc)
qed

text \<open>
  The theorem at \<open>three_cards_text\<close>: the first card takes the identifier \<^verbatim>\<open>uuid-0\<close>, the
  second keeps its id and is titled \<^verbatim>\<open>Card 2\<close>, the third is all defaults.
\<close>

theorem cards_from_object_witness:
  "brace_candidate three_cards_text = Some three_cards_text
   \<and> json_loads three_cards_text = Some (PyDict [(PyStr ''cards'', PyList three_cards_items)])
   \<and> three_cards_items \<noteq> []
   \<and> list_all is_dict three_cards_items
   \<and> inj example_uuid4
   \<and> (\<exists>cards. parse_cards_from_text json_loads example_uuid4 three_cards_text = Inr (cards, [])
        \<and> length cards = length three_cards_items
        \<and> cards ! 0 = \<lparr>card_id = ''uuid-0'', title = ''A'', content = ''B'', kind = ''text''\<rparr>
        \<and> cards ! 1 = \<lparr>card_id = ''x'', title = ''Card 2'', content = '''', kind = ''text''\<rparr>
        \<and> cards ! 2 = \<lparr>card_id = ''uuid-1'', title = ''Card 3'', content = '''',
                         kind = ''text''\<rparr>
        \<and> card_id (cards ! 0) \<noteq> card_id (cards ! 2))"
proof -
  have h1: "brace_candidate three_cards_text = Some three_cards_text" by code_simp
  have h2: "json_loads three_cards_text =
      Some (PyDict [(PyStr ''cards'', PyList three_cards_items)])" by code_simp
  have h3: "map_of [(PyStr ''cards'', PyList three_cards_items)] (PyStr ''cards'') =
      Some (PyList three_cards_items)" by simp
  have h4: "three_cards_items \<noteq> []" by (simp add: three_cards_items_def)
  have h5: "list_all is_dict three_cards_items" by code_simp
  have len: "length three_cards_items = 3" by (simp add: three_cards_items_def)
  have e0: "\<lparr>card_id = field_or (three_cards_items ! 0) ''id''
              (example_uuid4 (length (filter lacks_id (take 0 three_cards_items)))),
            title = field_or (three_cards_items ! 0) ''title'' (''Card '' @ nat_str (0 + 1)),
            content = field_or (three_cards_items ! 0) ''content'' '''',
            kind = field_or (three_cards_items ! 0) ''kind'' ''text''\<rparr> =
      \<lparr>card_id = ''uuid-0'', title = ''A'', content = ''B'', kind = ''text''\<rparr>" by code_simp
  have e1: "\<lparr>card_id = field_or (three_cards_items ! 1) ''id''
              (example_uuid4 (length (filter lacks_id (take 1 three_cards_items)))),
            title = field_or (three_cards_items ! 1) ''title'' (''Card '' @ nat_str (1 + 1)),
            content = field_or (three_cards_items ! 1) ''content'' '''',
            kind = field_or (three_cards_items ! 1) ''kind'' ''text''\<rparr> =
      \<lparr>card_id = ''x'', title = ''Card 2'', content = '''', kind = ''text''\<rparr>" by code_simp
  have e2: "\<lparr>card_id = field_or (three_cards_items ! 2) ''id''
              (example_uuid4 (length (filter lacks_id (take 2 three_cards_items)))),
            title = field_or (three_cards_items ! 2) ''title'' (''Card '' @ nat_str (2 + 1)),
            content = field_or (three_cards_items ! 2) ''content'' '''',
            kind = field_or (three_cards_items ! 2) ''kind'' ''text''\<rparr> =
      \<lparr>card_id = ''uuid-1'', title = ''Card 3'', content = '''', kind = ''text''\<rparr>"
    by code_simp
  have l0: "lacks_id (three_cards_items ! 0)" and l2: "lacks_id (three_cards_items ! 2)"
    by code_simp+
  from cards_from_object[of three_cards_text three_cards_text json_loads _ three_cards_items
      example_uuid4, OF h1 h2 h3 h4 h5]
  obtain cards where
    res: "parse_cards_from_text json_loads example_uuid4 three_cards_text = Inr (cards, [])"
    and length: "length cards = length three_cards_items"
    and nth: "\<forall>i<length three_cards_items. cards ! i =
          \<lparr>card_id = field_or (three_cards_items ! i) ''id''
                       (example_uuid4 (length (filter lacks_id (take i three_cards_items)))),
           title = field_or (three_cards_items ! i) ''title'' (''Card '' @ nat_str (i + 1)),
           content = field_or (three_cards_items ! i) ''content'' '''',
           kind = field_or (three_cards_items ! i) ''kind'' ''text''\<rparr>"
    and fresh: "inj example_uuid4 \<longrightarrow>
          (\<forall>i j. i < j \<and> j < length three_cards_items
               \<and> lacks_id (three_cards_items ! i) \<and> lacks_id (three_cards_items ! j)
             \<longrightarrow> card_id (cards ! i) \<noteq> card_id (cards ! j))"
    by blast
  have c0: "cards ! 0 = \<lparr>card_id = ''uuid-0'', title = ''A'', content = ''B'', kind = ''text''\<rparr>"
    using nth[rule_format, of 0] len e0 by simp
  have c1: "cards ! 1 = \<lparr>card_id = ''x'', title = ''Card 2'', content = '''', kind = ''text''\<rparr>"
    using nth[rule_format, of 1] len e1 by simp
  have c2: "cards ! 2 =
      \<lparr>card_id = ''uuid-1'', title = ''Card 3'', content = '''', kind = ''text''\<rparr>"
    using nth[rule_format, of 2] len e2 by simp
  have d: "card_id (cards ! 0) \<noteq> card_id (cards ! 2)"
    using fresh[rule_format, OF inj_example_uuid4, of 0 2] len l0 l2 by simp
  show ?thesis
    using h1 h2 h4 h5 inj_example_uuid4 res length c0 c1 c2 d by blast
qed

section \<open>The fallback card\<close>

text \<open>
  Claim C4 says that every text from which no object with a non-empty \<^verbatim>\<open>cards\<close> array can be
  extracted gives the fallback card. The code reaches its fallback when nothing decodes,
  when the decoded value has no \<^verbatim>\<open>cards\<close> key, and when the \<^verbatim>\<open>cards\<close> value is null or an
  empty array (lemma \<open>parse_cards_fallback\<close> and the last two lines below, where the content
  is the text without the white space around it). The guard
  \<^verbatim>\<open>parsed.get("cards", []) or []\<close> covers a value that is false and nothing else: a
  \<^verbatim>\<open>cards\<close> value that is a number is handed to \<^verbatim>\<open>enumerate\<close>, which raises TypeError, and
  one that is a string is iterated character by character, so that \<^verbatim>\<open>item.get\<close> raises
  AttributeError. On the text \<^verbatim>\<open>{"cards":5}\<close>, from which no \<^verbatim>\<open>cards\<close> array can be extracted,
  \<open>parse_cards_from_text\<close> raises instead of returning the fallback card.
\<close>

theorem cards_not_array_raises:
  "json_decode ''{\"cards\":5}'' = Value (PyDict [(PyStr ''cards'', PyInt 5)])
   \<and> extract_json_block json_loads ''{\"cards\":5}'' = PyDict [(PyStr ''cards'', PyInt 5)]
   \<and> parse_cards_from_text json_loads example_uuid4 ''{\"cards\":5}'' = Inl TypeError
   \<and> json_decode ''{\"cards\":\"ab\"}'' = Value (PyDict [(PyStr ''cards'', PyStr ''ab'')])
   \<and> parse_cards_from_text json_loads example_uuid4 ''{\"cards\":\"ab\"}'' = Inl AttributeError
   \<and> json_decode ''{\"cards\":null}'' = Value (PyDict [(PyStr ''cards'', PyNone)])
   \<and> parse_cards_from_text json_loads example_uuid4 ''  {\"cards\":null} '' =
       Inr ([\<lparr>card_id = ''uuid-0'', title = ''Response'', content = ''{\"cards\":null}'',
              kind = ''text''\<rparr>], [])
   \<and> brace_candidate ''  no cards here '' = None
   \<and> fence_search ''  no cards here '' = None
   \<and> parse_cards_from_text json_loads example_uuid4 ''  no cards here '' =
       Inr ([\<lparr>card_id = ''uuid-0'', title = ''Response'', content = ''no cards here'',
              kind = ''text''\<rparr>], [])"
  by code_simp

section \<open>Items that are not objects\<close>

text \<open>
  Claim C1 says that the normalizer never raises, also when the \<^verbatim>\<open>cards\<close> array holds an
  element that is not an object, or the \<^verbatim>\<open>card\<close> value is not an object. The code calls
  \<^verbatim>\<open>item.get\<close> on the element without looking at its type, and only a dictionary has
  \<^verbatim>\<open>get\<close>: on the text \<^verbatim>\<open>{"cards":[1]}\<close> \<open>parse_cards_from_text\<close> raises AttributeError, and
  so does \<open>parse_followup_from_text\<close> on \<^verbatim>\<open>{"card":1}\<close>.
\<close>

theorem non_object_card_raises:
  "json_decode ''{\"cards\":[1]}'' = Value (PyDict [(PyStr ''cards'', PyList [PyInt 1])])
   \<and> json_decode ''{\"card\":1}'' = Value (PyDict [(PyStr ''card'', PyInt 1)])
   \<and> parse_cards_from_text json_loads example_uuid4 ''{\"cards\":[1]}'' = Inl AttributeError
   \<and> parse_followup_from_text json_loads example_uuid4 ''{\"card\":1}'' = Inl AttributeError"
  by code_simp

section \<open>The fenced stage\<close>

text \<open>
  Claim C2 says that a well-formed fenced block with a non-empty \<^verbatim>\<open>cards\<close> array is used
  whenever the first stage fails. It is not so at \<open>two_fences_text\<close>: the text from the first
  \<^verbatim>\<open>{\<close> to the last \<^verbatim>\<open>}\<close> does not decode, the search finds the first fenced block only,
  whose content \<^verbatim>\<open>{oops\<close> does not decode either, and the result is the fallback card,
  although the second fenced block holds a well-formed object with one card.
\<close>

theorem fence_claim_counterexample:
  "two_fences_text = ''```json {oops ``` '' @ ''```json '' @ good_block @ '' ```''
   \<and> json_decode good_block =
       Value (PyDict [(PyStr ''cards'', PyList [PyDict [(PyStr ''title'', PyStr ''A'')]])])
   \<and> brace_candidate two_fences_text = Some (''{oops ``` '' @ ''```json '' @ good_block)
   \<and> json_decode (''{oops ``` '' @ ''```json '' @ good_block) = Invalid
   \<and> fence_search two_fences_text = Some ''{oops''
   \<and> json_decode ''{oops'' = Invalid
   \<and> parse_cards_from_text json_loads example_uuid4 two_fences_text =
       Inr ([\<lparr>card_id = ''uuid-0'', title = ''Response'', content = two_fences_text,
              kind = ''text''\<rparr>], [])"
proof -
  have 1: "two_fences_text = ''```json {oops ``` '' @ ''```json '' @ good_block @ '' ```''"
    by (simp add: two_fences_text_def)
  have 2: "json_decode good_block =
       Value (PyDict [(PyStr ''cards'', PyList [PyDict [(PyStr ''title'', PyStr ''A'')]])])"
    by code_simp
  have 3: "brace_candidate two_fences_text = Some (''{oops ``` '' @ ''```json '' @ good_block)"
    by code_simp
  have 4: "json_decode (''{oops ``` '' @ ''```json '' @ good_block) = Invalid"
    by code_simp
  have 5: "fence_search two_fences_text = Some ''{oops''"
    by code_simp
  have 6: "json_decode ''{oops'' = Invalid"
    by code_simp
  have 7: "parse_cards_from_text json_loads example_uuid4 two_fences_text =
       Inr ([\<lparr>card_id = ''uuid-0'', title = ''Response'', content = two_fences_text,
              kind = ''text''\<rparr>], [])"
    by code_simp
  show ?thesis using 1 2 3 4 5 6 7 by blast
qed

text \<open>
  Claim C2 as amended. The fenced stage is reached exactly when the text has no brace
  substring or that substring does not decode to a value other than None; the extraction is
  then what the first fenced block decodes to (the text between the first \<^verbatim>\<open>```json\<close> and the
  next \<^verbatim>\<open>```\<close>, stripped), and if that is an object whose \<^verbatim>\<open>cards\<close> value is a non-empty
  array of objects, its cards are returned. When the brace substring decodes to a value, the
  extraction is that value and the fence is not consulted: an object without a \<^verbatim>\<open>cards\<close>
  key, or with an empty \<^verbatim>\<open>cards\<close> array, gives the fallback card at once. This holds for
  every decoder.
\<close>

theorem fence_stage:
  "((brace_candidate text = None
       \<or> (\<exists>c. brace_candidate text = Some c \<and> (loads c = None \<or> loads c = Some PyNone)))
      \<longrightarrow> extract_json_block loads text =
            (case fence_search text of None \<Rightarrow> PyNone | Some w \<Rightarrow> safe_json_loads loads w)
        \<and> (\<forall>w kv items. fence_search text = Some w \<and> loads w = Some (PyDict kv)
              \<and> map_of kv (PyStr ''cards'') = Some (PyList items) \<and> items \<noteq> []
              \<and> list_all is_dict items \<longrightarrow>
            parse_cards_from_text loads uuid4 text =
              Inr (map (card_at uuid4 0 0 items) [0..<length items], [])))
   \<and> (\<forall>c v. brace_candidate text = Some c \<and> loads c = Some v \<and> v \<noteq> PyNone \<longrightarrow>
         extract_json_block loads text = v
         \<and> ((\<forall>kv. v = PyDict kv \<longrightarrow> map_of kv (PyStr ''cards'') = None
                                    \<or> map_of kv (PyStr ''cards'') = Some (PyList [])) \<longrightarrow>
             parse_cards_from_text loads uuid4 text =
               Inr ([\<lparr>card_id = uuid4 0, title = ''Response'', content = py_strip text,
                      kind = ''text''\<rparr>], [])))"
proof (intro conjI impI allI)
  assume h: "brace_candidate text = None
       \<or> (\<exists>c. brace_candidate text = Some c \<and> (loads c = None \<or> loads c = Some PyNone))"
  then show e: "extract_json_block loads text =
            (case fence_search text of None \<Rightarrow> PyNone | Some w \<Rightarrow> safe_json_loads loads w)"
    by (rule extract_fence)
  fix w kv items
  assume f: "fence_search text = Some w \<and> loads w = Some (PyDict kv)
              \<and> map_of kv (PyStr ''cards'') = Some (PyList items) \<and> items \<noteq> []
              \<and> list_all is_dict items"
  then have x: "extract_json_block loads text = PyDict kv"
    using e by (simp add: safe_json_loads_def)
  from f have m: "map_of kv (PyStr ''cards'') = Some (PyList items)"
    and ne: "items \<noteq> []" and ld: "list_all is_dict items" by simp_all
  show "parse_cards_from_text loads uuid4 text =
              Inr (map (card_at uuid4 0 0 items) [0..<length items], [])"
    using x m ne ld by (rule parse_cards_dicts)
next
  fix c v
  assume b: "brace_candidate text = Some c \<and> loads c = Some v \<and> v \<noteq> PyNone"
  then have b1: "brace_candidate text = Some c" and b2: "loads c = Some v"
    and b3: "v \<noteq> PyNone"
    by simp_all
  show e: "extract_json_block loads text = v"
    using b1 b2 b3 by (rule extract_braces)
  assume "\<forall>kv. v = PyDict kv \<longrightarrow> map_of kv (PyStr ''cards'') = None
                                    \<or> map_of kv (PyStr ''cards'') = Some (PyList [])"
  then have "extract_json_block loads text = PyNone
     \<or> (\<forall>kv. extract_json_block loads text = PyDict kv
            \<longrightarrow> map_of kv (PyStr ''cards'') = None)
     \<or> (\<exists>kv. extract_json_block loads text = PyDict kv
            \<and> map_of kv (PyStr ''cards'') = Some (PyList []))"
    using e by (cases v) auto
  then show "parse_cards_from_text loads uuid4 text =
               Inr ([\<lparr>card_id = uuid4 0, title = ''Response'', content = py_strip text,
                      kind = ''text''\<rparr>], [])"
    by (rule parse_cards_fallback)
qed

text \<open>
  The theorem at \<open>fenced_text\<close>: the braces of the prose make the first stage fail, and the
  card of the fenced block is returned.
\<close>

theorem fence_stage_witness:
  "brace_candidate fenced_text = Some (''{here}: '' @ ''```json '' @ good_block)
   \<and> json_decode (''{here}: '' @ ''```json '' @ good_block) = Invalid
   \<and> json_loads (''{here}: '' @ ''```json '' @ good_block) = None
   \<and> fence_search fenced_text = Some good_block
   \<and> json_loads good_block =
       Some (PyDict [(PyStr ''cards'', PyList [PyDict [(PyStr ''title'', PyStr ''A'')]])])
   \<and> parse_cards_from_text json_loads example_uuid4 fenced_text =
       Inr ([\<lparr>card_id = ''uuid-0'', title = ''A'', content = '''', kind = ''text''\<rparr>], [])"
proof -
  let ?c = "''{here}: '' @ ''```json '' @ good_block"
  let ?items = "[PyDict [(PyStr ''title'', PyStr ''A'')]]"
  have b: "brace_candidate fenced_text = Some ?c" by code_simp
  have i: "json_decode ?c = Invalid" by code_simp
  have l: "json_loads ?c = None" by code_simp
  have f: "fence_search fenced_text = Some good_block" by code_simp
  have g: "json_loads good_block = Some (PyDict [(PyStr ''cards'', PyList ?items)])"
    by code_simp
  have h: "brace_candidate fenced_text = None
       \<or> (\<exists>c. brace_candidate fenced_text = Some c
             \<and> (json_loads c = None \<or> json_loads c = Some PyNone))"
    using b l by simp
  have d: "list_all is_dict ?items" by code_simp
  have v: "map (card_at example_uuid4 0 0 ?items) [0..<length ?items] =
      [\<lparr>card_id = ''uuid-0'', title = ''A'', content = '''', kind = ''text''\<rparr>]"
    by code_simp
  have "parse_cards_from_text json_loads example_uuid4 fenced_text =
      Inr (map (card_at example_uuid4 0 0 ?items) [0..<length ?items], [])"
    using fence_stage[of fenced_text json_loads example_uuid4] h f g d by simp
  then show ?thesis using b i l f g v by simp
qed

section \<open>Two runs on the same text\<close>



section \<open>A false value is a missing field\<close>

text \<open>
  Claim C10. In the card expression a field whose value is false (the empty string, 0,
  False, None, and also an empty list or dictionary) is treated exactly as a field that is
  absent. For the cards of a \<^verbatim>\<open>cards\<close> array of objects, \<open>parse_cards_from_text\<close> gives the card
  at index \<open>i\<close> the next identifier when the element's \<^verbatim>\<open>id\<close> is absent or false, the title
  \<^verbatim>\<open>Card\<close> followed by \<open>i + 1\<close> when its \<^verbatim>\<open>title\<close> is, the empty content when its \<^verbatim>\<open>content\<close> is,
  and the kind \<^verbatim>\<open>text\<close> when its \<^verbatim>\<open>kind\<close> is; a field that holds a true value is rendered with
  \<^verbatim>\<open>str\<close>, whatever its type, and a string renders as itself. \<open>parse_followup_from_text\<close> does
  the same for the object under \<^verbatim>\<open>card\<close>, with the first identifier and the title
  \<^verbatim>\<open>Clarification\<close>. Removing a false field from an element changes neither the card nor the
  number of identifiers drawn, at any position of the loop. This holds for every decoder.
\<close>

theorem falsy_field_is_missing:
  "(\<forall>obj items. extract_json_block loads text = PyDict obj
        \<and> map_of obj (PyStr ''cards'') = Some (PyList items) \<and> items \<noteq> []
        \<and> list_all is_dict items \<longrightarrow>
      (\<exists>cards. parse_cards_from_text loads uuid4 text = Inr (cards, [])
         \<and> length cards = length items
         \<and> (\<forall>i<length items. \<forall>kv. items ! i = PyDict kv \<longrightarrow>
              ((map_of kv (PyStr ''id'') = None
                  \<or> (\<exists>v. map_of kv (PyStr ''id'') = Some v \<and> \<not> truthy v)) \<longrightarrow>
                 card_id (cards ! i) = uuid4 (length (filter lacks_id (take i items))))
            \<and> ((map_of kv (PyStr ''title'') = None
                  \<or> (\<exists>v. map_of kv (PyStr ''title'') = Some v \<and> \<not> truthy v)) \<longrightarrow>
                 title (cards ! i) = ''Card '' @ nat_str (i + 1))
            \<and> ((map_of kv (PyStr ''content'') = None
                  \<or> (\<exists>v. map_of kv (PyStr ''content'') = Some v \<and> \<not> truthy v)) \<longrightarrow>
                 content (cards ! i) = '''')
            \<and> ((map_of kv (PyStr ''kind'') = None
                  \<or> (\<exists>v. map_of kv (PyStr ''kind'') = Some v \<and> \<not> truthy v)) \<longrightarrow>
                 kind (cards ! i) = ''text'')
            \<and> (\<forall>v. map_of kv (PyStr ''id'') = Some v \<and> truthy v \<longrightarrow>
                 card_id (cards ! i) = py_str v)
            \<and> (\<forall>v. map_of kv (PyStr ''title'') = Some v \<and> truthy v \<longrightarrow>
                 title (cards ! i) = py_str v)
            \<and> (\<forall>v. map_of kv (PyStr ''content'') = Some v \<and> truthy v \<longrightarrow>
                 content (cards ! i) = py_str v)
            \<and> (\<forall>v. map_of kv (PyStr ''kind'') = Some v \<and> truthy v \<longrightarrow>
                 kind (cards ! i) = py_str v))))
   \<and> (\<forall>obj kv. extract_json_block loads text = PyDict obj
        \<and> map_of obj (PyStr ''card'') = Some (PyDict kv) \<longrightarrow>
      (\<exists>c. parse_followup_from_text loads uuid4 text = Inr c
         \<and> ((map_of kv (PyStr ''id'') = None
               \<or> (\<exists>v. map_of kv (PyStr ''id'') = Some v \<and> \<not> truthy v)) \<longrightarrow>
              card_id c = uuid4 0)
         \<and> ((map_of kv (PyStr ''title'') = None
               \<or> (\<exists>v. map_of kv (PyStr ''title'') = Some v \<and> \<not> truthy v)) \<longrightarrow>
              title c = ''Clarification'')
         \<and> ((map_of kv (PyStr ''content'') = None
               \<or> (\<exists>v. map_of kv (PyStr ''content'') = Some v \<and> \<not> truthy v)) \<longrightarrow>
              content c = '''')
         \<and> ((map_of kv (PyStr ''kind'') = None
               \<or> (\<exists>v. map_of kv (PyStr ''kind'') = Some v \<and> \<not> truthy v)) \<longrightarrow>
              kind c = ''text'')
         \<and> (\<forall>v. map_of kv (PyStr ''id'') = Some v \<and> truthy v \<longrightarrow> card_id c = py_str v)
         \<and> (\<forall>v. map_of kv (PyStr ''title'') = Some v \<and> truthy v \<longrightarrow> title c = py_str v)
         \<and> (\<forall>v. map_of kv (PyStr ''content'') = Some v \<and> truthy v \<longrightarrow> content c = py_str v)
         \<and> (\<forall>v. map_of kv (PyStr ''kind'') = Some v \<and> truthy v \<longrightarrow> kind c = py_str v)))
   \<and> (\<forall>kv k dt idx pre post acc n. \<not> truthy (dict_get kv k) \<longrightarrow>
         make_card uuid4 dt (PyDict kv) n =
           make_card uuid4 dt (PyDict (filter (\<lambda>p. fst p \<noteq> PyStr k) kv)) n
         \<and> cards_loop uuid4 idx (pre @ PyDict kv # post) acc n =
           cards_loop uuid4 idx (pre @ PyDict (filter (\<lambda>p. fst p \<noteq> PyStr k) kv) # post) acc n)
   \<and> (\<forall>kv. lacks_id (PyDict kv) =
         (map_of kv (PyStr ''id'') = None
            \<or> (\<exists>v. map_of kv (PyStr ''id'') = Some v \<and> \<not> truthy v)))
   \<and> \<not> truthy (PyStr '''') \<and> \<not> truthy (PyInt 0) \<and> \<not> truthy (PyBool False)
   \<and> \<not> truthy PyNone
   \<and> (\<forall>s. py_str (PyStr s) = s)"
proof -
  have gen: "\<exists>cards. parse_cards_from_text loads uuid4 text = Inr (cards, [])
         \<and> length cards = length items
         \<and> (\<forall>i<length items. \<forall>kv. items ! i = PyDict kv \<longrightarrow>
              ((map_of kv (PyStr ''id'') = None
                  \<or> (\<exists>v. map_of kv (PyStr ''id'') = Some v \<and> \<not> truthy v)) \<longrightarrow>
                 card_id (cards ! i) = uuid4 (length (filter lacks_id (take i items))))
            \<and> ((map_of kv (PyStr ''title'') = None
                  \<or> (\<exists>v. map_of kv (PyStr ''title'') = Some v \<and> \<not> truthy v)) \<longrightarrow>
                 title (cards ! i) = ''Card '' @ nat_str (i + 1))
            \<and> ((map_of kv (PyStr ''content'') = None
                  \<or> (\<exists>v. map_of kv (PyStr ''content'') = Some v \<and> \<not> truthy v)) \<longrightarrow>
                 content (cards ! i) = '''')
            \<and> ((map_of kv (PyStr ''kind'') = None
                  \<or> (\<exists>v. map_of kv (PyStr ''kind'') = Some v \<and> \<not> truthy v)) \<longrightarrow>
                 kind (cards ! i) = ''text'')
            \<and> (\<forall>v. map_of kv (PyStr ''id'') = Some v \<and> truthy v \<longrightarrow>
                 card_id (cards ! i) = py_str v)
            \<and> (\<forall>v. map_of kv (PyStr ''title'') = Some v \<and> truthy v \<longrightarrow>
                 title (cards ! i) = py_str v)
            \<and> (\<forall>v. map_of kv (PyStr ''content'') = Some v \<and> truthy v \<longrightarrow>
                 content (cards ! i) = py_str v)
            \<and> (\<forall>v. map_of kv (PyStr ''kind'') = Some v \<and> truthy v \<longrightarrow>
                 kind (cards ! i) = py_str v))"
    if e: "extract_json_block loads text = PyDict obj"
      and c: "map_of obj (PyStr ''cards'') = Some (PyList items)"
      and ne: "items \<noteq> []" and d: "list_all is_dict items" for obj items
  proof -
    let ?cards = "map (card_at uuid4 0 0 items) [0..<length items]"
    have res: "parse_cards_from_text loads uuid4 text = Inr (?cards, [])"
      using e c ne d by (rule parse_cards_dicts)
    have nth: "?cards ! i =
       \<lparr>card_id = field_or (PyDict kv) ''id'' (uuid4 (length (filter lacks_id (take i items)))),
        title = field_or (PyDict kv) ''title'' (''Card '' @ nat_str (i + 1)),
        content = field_or (PyDict kv) ''content'' '''',
        kind = field_or (PyDict kv) ''kind'' ''text''\<rparr>"
      if "i < length items" and "items ! i = PyDict kv" for i kv
      using that by (simp add: card_at_fields del: upt_Suc)
    show ?thesis
      using res nth
      by (intro exI[of _ ?cards])
         (simp add: field_or_default field_or_truthy del: upt_Suc)
  qed
  have fol: "\<exists>c. parse_followup_from_text loads uuid4 text = Inr c
         \<and> ((map_of kv (PyStr ''id'') = None
               \<or> (\<exists>v. map_of kv (PyStr ''id'') = Some v \<and> \<not> truthy v)) \<longrightarrow>
              card_id c = uuid4 0)
         \<and> ((map_of kv (PyStr ''title'') = None
               \<or> (\<exists>v. map_of kv (PyStr ''title'') = Some v \<and> \<not> truthy v)) \<longrightarrow>
              title c = ''Clarification'')
         \<and> ((map_of kv (PyStr ''content'') = None
               \<or> (\<exists>v. map_of kv (PyStr ''content'') = Some v \<and> \<not> truthy v)) \<longrightarrow>
              content c = '''')
         \<and> ((map_of kv (PyStr ''kind'') = None
               \<or> (\<exists>v. map_of kv (PyStr ''kind'') = Some v \<and> \<not> truthy v)) \<longrightarrow>
              kind c = ''text'')
         \<and> (\<forall>v. map_of kv (PyStr ''id'') = Some v \<and> truthy v \<longrightarrow> card_id c = py_str v)
         \<and> (\<forall>v. map_of kv (PyStr ''title'') = Some v \<and> truthy v \<longrightarrow> title c = py_str v)
         \<and> (\<forall>v. map_of kv (PyStr ''content'') = Some v \<and> truthy v \<longrightarrow> content c = py_str v)
         \<and> (\<forall>v. map_of kv (PyStr ''kind'') = Some v \<and> truthy v \<longrightarrow> kind c = py_str v)"
    if e: "extract_json_block loads text = PyDict obj"
      and c: "map_of obj (PyStr ''card'') = Some (PyDict kv)" for obj kv
    by (simp add: followup_dict[OF e c] field_or_default field_or_truthy)
  have same: "make_card uuid4 dt (PyDict kv) n =
           make_card uuid4 dt (PyDict (filter (\<lambda>p. fst p \<noteq> PyStr k) kv)) n
         \<and> cards_loop uuid4 idx (pre @ PyDict kv # post) acc n =
           cards_loop uuid4 idx (pre @ PyDict (filter (\<lambda>p. fst p \<noteq> PyStr k) kv) # post) acc n"
    if f: "\<not> truthy (dict_get kv k)" for kv k dt idx pre post acc n
  proof -
    have a: "make_card uuid4 dt (PyDict (filter (\<lambda>p. fst p \<noteq> PyStr k) kv)) n =
        make_card uuid4 dt (PyDict kv) n" for dt n
      using f by (rule make_card_remove)
    have b: "cards_loop uuid4 idx (pre @ PyDict kv # post) acc n =
        cards_loop uuid4 idx (pre @ PyDict (filter (\<lambda>p. fst p \<noteq> PyStr k) kv) # post) acc n"
      by (rule cards_loop_same_cards) (simp add: a)
    show ?thesis using a b by simp
  qed
  have str: "\<forall>s. py_str (PyStr s) = s" by (simp add: py_str_def)
  show ?thesis
    apply (intro conjI allI impI)
    subgoal by (elim conjE) (rule gen)
    subgoal by (elim conjE) (rule fol)
    subgoal by (rule same[THEN conjunct1])
    subgoal by (rule same[THEN conjunct2])
    subgoal by (rule lacks_id_dict)
    subgoal by simp
    subgoal by simp
    subgoal by simp
    subgoal by simp
    subgoal by (simp add: py_str_def)
    done
qed

text \<open>
  The theorem at \<open>falsy_cards_text\<close> and \<open>falsy_followup_text\<close>. The first element has the id,
  title and kind \<^verbatim>\<open>""\<close> and the content 0, and its card is all defaults, titled \<^verbatim>\<open>Card 1\<close>. The
  second has the id 7, the title \<^verbatim>\<open>true\<close> and the content \<^verbatim>\<open>[1,"a"]\<close>, which are rendered as
  \<^verbatim>\<open>7\<close>, \<^verbatim>\<open>True\<close> and \<^verbatim>\<open>[1, 'a']\<close>. The third has a null id and kind, the content \<^verbatim>\<open>false\<close> and no
  title: it takes the second identifier and the title \<^verbatim>\<open>Card 3\<close>. The follow-up card of the
  first element is all defaults, titled \<^verbatim>\<open>Clarification\<close>, and the loop gives that element the
  card it gives the element without its \<^verbatim>\<open>content\<close>.
\<close>

theorem falsy_field_is_missing_witness:
  "json_decode falsy_cards_text = Value (PyDict [(PyStr ''cards'', PyList falsy_cards_items)])
   \<and> (\<exists>cards. parse_cards_from_text json_loads example_uuid4 falsy_cards_text = Inr (cards, [])
        \<and> length cards = 3
        \<and> card_id (cards ! 0) = ''uuid-0'' \<and> title (cards ! 0) = ''Card 1''
        \<and> content (cards ! 0) = '''' \<and> kind (cards ! 0) = ''text''
        \<and> card_id (cards ! 1) = ''7'' \<and> title (cards ! 1) = ''True''
        \<and> content (cards ! 1) = ''[1, 'a']'' \<and> kind (cards ! 1) = ''note''
        \<and> card_id (cards ! 2) = ''uuid-1'' \<and> title (cards ! 2) = ''Card 3''
        \<and> content (cards ! 2) = '''' \<and> kind (cards ! 2) = ''text'')
   \<and> json_decode falsy_followup_text = Value (PyDict [(PyStr ''card'', PyDict falsy_item)])
   \<and> (\<exists>c. parse_followup_from_text json_loads example_uuid4 falsy_followup_text = Inr c
        \<and> card_id c = ''uuid-0'' \<and> title c = ''Clarification''
        \<and> content c = '''' \<and> kind c = ''text'')
   \<and> \<not> truthy (dict_get falsy_item ''content'')
   \<and> cards_loop example_uuid4 0 [PyDict falsy_item] [] 0 =
       (Inr [\<lparr>card_id = ''uuid-0'', title = ''Card 1'', content = '''', kind = ''text''\<rparr>], 1)"
proof -
  have j: "json_decode falsy_cards_text =
      Value (PyDict [(PyStr ''cards'', PyList falsy_cards_items)])"
    by code_simp
  have e: "extract_json_block json_loads falsy_cards_text =
      PyDict [(PyStr ''cards'', PyList falsy_cards_items)]"
    by code_simp
  have d: "list_all is_dict falsy_cards_items" by code_simp
  have h: "extract_json_block json_loads falsy_cards_text =
        PyDict [(PyStr ''cards'', PyList falsy_cards_items)]
      \<and> map_of [(PyStr ''cards'', PyList falsy_cards_items)] (PyStr ''cards'') =
        Some (PyList falsy_cards_items)
      \<and> falsy_cards_items \<noteq> [] \<and> list_all is_dict falsy_cards_items"
    using e d by (simp add: falsy_cards_items_def)
  have len: "length falsy_cards_items = 3" by (simp add: falsy_cards_items_def)
  have it: "falsy_cards_items ! 0 = PyDict falsy_item"
    "falsy_cards_items ! Suc 0 = PyDict truthy_item"
    "falsy_cards_items ! 2 = PyDict null_item"
    by (simp_all add: falsy_cards_items_def)
  have u: "example_uuid4 0 = ''uuid-0''"
    "example_uuid4 (length (filter lacks_id (take 2 falsy_cards_items))) = ''uuid-1''"
    by code_simp+
  have n: "nat_str (Suc 0) = ''1''" "nat_str 3 = ''3''" by code_simp+
  have s: "py_str (PyInt 7) = ''7''" "py_str (PyBool True) = ''True''"
    "py_str (PyList [PyInt 1, PyStr ''a'']) = ''[1, 'a']''" "py_str (PyStr ''note'') = ''note''"
    "py_str (PyStr ''T'') = ''T''"
    by code_simp+
  note g = falsy_field_is_missing[of json_loads falsy_cards_text example_uuid4,
      THEN conjunct1, rule_format, OF h]
  have gen: "\<exists>cards. parse_cards_from_text json_loads example_uuid4 falsy_cards_text =
          Inr (cards, [])
        \<and> length cards = 3
        \<and> card_id (cards ! 0) = ''uuid-0'' \<and> title (cards ! 0) = ''Card 1''
        \<and> content (cards ! 0) = '''' \<and> kind (cards ! 0) = ''text''
        \<and> card_id (cards ! 1) = ''7'' \<and> title (cards ! 1) = ''True''
        \<and> content (cards ! 1) = ''[1, 'a']'' \<and> kind (cards ! 1) = ''note''
        \<and> card_id (cards ! 2) = ''uuid-1'' \<and> title (cards ! 2) = ''Card 3''
        \<and> content (cards ! 2) = '''' \<and> kind (cards ! 2) = ''text''"
    using g
    apply (elim exE conjE)
    subgoal for cards
      apply (rule exI[of _ cards])
      apply (frule spec[of _ "0::nat"], frule spec[of _ "1::nat"], drule spec[of _ "2::nat"])
      apply (simp add: len it u n s falsy_item_def truthy_item_def null_item_def)
      done
    done
  have j2: "json_decode falsy_followup_text =
      Value (PyDict [(PyStr ''card'', PyDict falsy_item)])"
    by code_simp
  have e2: "extract_json_block json_loads falsy_followup_text =
      PyDict [(PyStr ''card'', PyDict falsy_item)]"
    by code_simp
  have h2: "extract_json_block json_loads falsy_followup_text =
        PyDict [(PyStr ''card'', PyDict falsy_item)]
      \<and> map_of [(PyStr ''card'', PyDict falsy_item)] (PyStr ''card'') =
        Some (PyDict falsy_item)"
    using e2 by simp
  note f = falsy_field_is_missing[of json_loads falsy_followup_text example_uuid4,
      THEN conjunct2, THEN conjunct1, rule_format, OF h2]
  have fol: "\<exists>c. parse_followup_from_text json_loads example_uuid4 falsy_followup_text = Inr c
        \<and> card_id c = ''uuid-0'' \<and> title c = ''Clarification''
        \<and> content c = '''' \<and> kind c = ''text''"
    using f by (simp add: falsy_item_def u)
  have z: "\<not> truthy (dict_get falsy_item ''content'')" by code_simp
  have w: "cards_loop example_uuid4 0
        [PyDict (filter (\<lambda>p. fst p \<noteq> PyStr ''content'') falsy_item)] [] 0 =
      (Inr [\<lparr>card_id = ''uuid-0'', title = ''Card 1'', content = '''', kind = ''text''\<rparr>], 1)"
    by code_simp
  note r = falsy_field_is_missing[of json_loads falsy_cards_text example_uuid4,
      THEN conjunct2, THEN conjunct2, THEN conjunct1, rule_format, OF z, THEN conjunct2,
      of 0 "[]" "[]" "[]" 0]
  have rem: "cards_loop example_uuid4 0 [PyDict falsy_item] [] 0 =
      (Inr [\<lparr>card_id = ''uuid-0'', title = ''Card 1'', content = '''', kind = ''text''\<rparr>], 1)"
    using r w by simp
  show ?thesis
    using j gen j2 fol z rem by (intro conjI)
qed

section \<open>The normalized configuration\<close>

text \<open>
  Claim C6 says that the normalized configuration always has a \<^verbatim>\<open>mock\<close> provider with a
  non-empty model list. The code adds \<^verbatim>\<open>mock\<close> only when the key is absent: a raw
  configuration that maps \<^verbatim>\<open>mock\<close> to an empty list keeps the empty list.
\<close>

theorem mock_list_counterexample:
  "(case build_models_config empty_mock_config of
      Inl e \<Rightarrow> None
    | Inr cfg \<Rightarrow> providers cfg ''mock'') = Some []"
  by code_simp

text \<open>
  Claim C6 as amended. Whenever \<open>build_models_config\<close> returns a configuration, \<^verbatim>\<open>mock\<close> is
  one of its providers, and so is its default provider. The list of \<^verbatim>\<open>mock\<close> is
  \<^verbatim>\<open>["mock-model"]\<close> when no provider key of the raw configuration is \<^verbatim>\<open>mock\<close> in lower case;
  otherwise it is the list made from the last such entry, which is empty when that entry is
  an empty list.
\<close>

theorem mock_always_present:
  assumes "build_models_config raw = Inr cfg"
  shows "providers cfg ''mock'' \<noteq> None
     \<and> providers cfg (default_provider cfg) \<noteq> None
     \<and> (\<forall>ms pv entries. py_get raw ''models'' (PyDict []) = Inr ms
            \<and> py_get ms ''providers'' (PyDict []) = Inr pv
            \<and> py_or pv (PyDict []) = PyDict entries \<longrightarrow>
          providers cfg ''mock'' =
            (case filter (\<lambda>e. py_lower (py_str (fst e)) = ''mock'') entries of
               [] \<Rightarrow> Some [''mock-model'']
             | e # es \<Rightarrow> Some (model_list (snd (last (e # es))))))
     \<and> model_list (PyList []) = []"
proof -
  from assms obtain ms dp pv entries where
    ms: "py_get raw ''models'' (PyDict []) = Inr ms"
    and pv: "py_get ms ''providers'' (PyDict []) = Inr pv"
    and en: "py_or pv (PyDict []) = PyDict entries"
    and pr: "providers cfg =
       (if normalize_loop entries Map.empty ''mock'' = None
        then (normalize_loop entries Map.empty)(''mock'' \<mapsto> [''mock-model''])
        else normalize_loop entries Map.empty)"
    and df: "default_provider cfg =
       (if providers cfg (py_lower (py_str dp)) = None then ''mock'' else py_lower (py_str dp))"
    by (rule build_models_config_Inr)
  have a: "providers cfg ''mock'' \<noteq> None"
    by (simp add: pr)
  have b: "providers cfg (default_provider cfg) \<noteq> None"
    using a by (simp add: df)
  have c: "providers cfg ''mock'' =
            (case filter (\<lambda>e. py_lower (py_str (fst e)) = ''mock'') entries of
               [] \<Rightarrow> Some [''mock-model'']
             | e # es \<Rightarrow> Some (model_list (snd (last (e # es)))))"
    by (simp add: pr normalize_loop_lookup split: list.splits)
  have d: "model_list (PyList []) = []"
    by (simp add: model_list_def)
  show ?thesis
    using a b c d ms pv en by auto
qed

text \<open>
  The theorem at \<open>sample_config\<close>, which has the keys \<^verbatim>\<open>Mock\<close> and \<^verbatim>\<open>mock\<close>: the later entry
  stands.
\<close>

theorem mock_always_present_witness:
  "\<exists>cfg. build_models_config sample_config = Inr cfg
     \<and> providers cfg ''mock'' \<noteq> None
     \<and> providers cfg (default_provider cfg) \<noteq> None
     \<and> providers cfg ''mock'' = Some [''m2'', ''m3'']"
proof -
  have "case build_models_config sample_config of Inl e \<Rightarrow> False | Inr cfg \<Rightarrow> True"
    by code_simp
  then obtain cfg where b: "build_models_config sample_config = Inr cfg"
    by (cases "build_models_config sample_config") auto
  have g1: "py_get sample_config ''models'' (PyDict []) = Inr sample_models_section"
    by code_simp
  have g2: "py_get sample_models_section ''providers'' (PyDict []) = Inr (PyDict sample_entries)"
    by code_simp
  have g3: "py_or (PyDict sample_entries) (PyDict []) = PyDict sample_entries"
    by code_simp
  have f: "(case filter (\<lambda>e. py_lower (py_str (fst e)) = ''mock'') sample_entries of
               [] \<Rightarrow> Some [''mock-model'']
             | e # es \<Rightarrow> Some (model_list (snd (last (e # es))))) = Some [''m2'', ''m3'']"
    by code_simp
  from mock_always_present[OF b] g1 g2 g3 f
  have "providers cfg ''mock'' \<noteq> None \<and> providers cfg (default_provider cfg) \<noteq> None
     \<and> providers cfg ''mock'' = Some [''m2'', ''m3'']"
    by metis
  then show ?thesis using b by blast
qed

section \<open>Provider resolution\<close>

text \<open>
  Claim C5 gives three results of the resolver without a condition on the configuration.
  Two of them fail. Without a \<^verbatim>\<open>config.yaml\<close> the provider \<^verbatim>\<open>openai\<close> has no model, and
  \<^verbatim>\<open>resolve("openai", "gpt-custom")\<close> is \<^verbatim>\<open>("mock", "gpt-custom")\<close>; with a default provider
  that has an empty model list, \<^verbatim>\<open>resolve(None, None)\<close> is \<^verbatim>\<open>("mock", "mock-model")\<close>, not the
  default provider, and when that provider is \<^verbatim>\<open>openai\<close> the override is again paired with
  \<^verbatim>\<open>mock\<close>.
\<close>

theorem resolution_counterexample:
  "(case load_settings no_config None None None of
      Inl e \<Rightarrow> Inl e
    | Inr s \<Rightarrow> resolve_provider_and_model s (Some ''openai'') (Some ''gpt-custom''))
     = Inr (''mock'', ''gpt-custom'')
   \<and> (case load_settings empty_default_config None None None of
      Inl e \<Rightarrow> Inl e
    | Inr s \<Rightarrow> Inr (default_provider (models s), resolve_provider_and_model s None None))
     = Inr (''openai'', Inr (''mock'', ''mock-model''))
   \<and> (case load_settings empty_default_config None None None of
      Inl e \<Rightarrow> Inl e
    | Inr s \<Rightarrow> resolve_provider_and_model s (Some ''openai'') (Some ''gpt-custom''))
     = Inr (''mock'', ''gpt-custom'')"
  by code_simp

text \<open>
  Claim C5 as amended. \<^verbatim>\<open>resolve("unknown-provider", None)\<close> is \<^verbatim>\<open>mock\<close> with the first model
  of \<^verbatim>\<open>mock\<close> (\<^verbatim>\<open>mock-model\<close> when \<^verbatim>\<open>mock\<close> has none), when \<^verbatim>\<open>unknown-provider\<close> has no model.
  \<^verbatim>\<open>resolve(None, None)\<close> is the default provider, in lower case, with its first model, when it
  has one; otherwise it is the \<^verbatim>\<open>mock\<close> pair. \<^verbatim>\<open>resolve("openai", "gpt-custom")\<close> is
  \<^verbatim>\<open>("openai", "gpt-custom")\<close> when \<^verbatim>\<open>openai\<close> has at least one model, whether or not
  \<^verbatim>\<open>gpt-custom\<close> is among them; otherwise it is \<^verbatim>\<open>("mock", "gpt-custom")\<close>. The default provider
  of a normalized configuration is already in lower case.
\<close>

theorem resolution_rules:
  "((providers (models s) ''unknown-provider'' = None
       \<or> providers (models s) ''unknown-provider'' = Some []) \<longrightarrow>
      resolve_provider_and_model s (Some ''unknown-provider'') None =
        Inr (''mock'', case providers (models s) ''mock'' of
                         Some (m # ms) \<Rightarrow> m | _ \<Rightarrow> ''mock-model''))
   \<and> (\<forall>m ms. providers (models s) (py_lower (default_provider (models s))) = Some (m # ms) \<longrightarrow>
        resolve_provider_and_model s None None = Inr (py_lower (default_provider (models s)), m))
   \<and> (\<forall>m ms. providers (models s) ''openai'' = Some (m # ms) \<longrightarrow>
        resolve_provider_and_model s (Some ''openai'') (Some ''gpt-custom'') =
          Inr (''openai'', ''gpt-custom''))
   \<and> ((providers (models s) ''openai'' = None \<or> providers (models s) ''openai'' = Some []) \<longrightarrow>
        resolve_provider_and_model s (Some ''openai'') (Some ''gpt-custom'') =
          Inr (''mock'', ''gpt-custom''))
   \<and> ((providers (models s) (py_lower (default_provider (models s))) = None
        \<or> providers (models s) (py_lower (default_provider (models s))) = Some []) \<longrightarrow>
        resolve_provider_and_model s None None =
          Inr (''mock'', case providers (models s) ''mock'' of
                           Some (m # ms) \<Rightarrow> m | _ \<Rightarrow> ''mock-model''))
   \<and> (\<forall>raw cfg. build_models_config raw = Inr cfg \<longrightarrow>
        py_lower (default_provider cfg) = default_provider cfg)"
  using build_default_lower
  by (auto simp add: resolve_provider_and_model_def Let_def lower_unknown lower_openai
        py_index0_def split: option.splits list.splits)

text \<open>The theorem at \<open>sample_settings\<close>, where \<^verbatim>\<open>gpt-custom\<close> is not a model of \<^verbatim>\<open>openai\<close>.\<close>

theorem resolution_rules_witness:
  "providers (models sample_settings) ''unknown-provider'' = None
   \<and> providers (models sample_settings) ''openai'' = Some [''gpt-4o'', ''gpt-4o-mini'']
   \<and> ''gpt-custom'' \<notin> set [''gpt-4o'', ''gpt-4o-mini'']
   \<and> resolve_provider_and_model sample_settings (Some ''unknown-provider'') None =
       Inr (''mock'', ''m2'')
   \<and> resolve_provider_and_model sample_settings None None = Inr (''openai'', ''gpt-4o'')
   \<and> resolve_provider_and_model sample_settings (Some ''openai'') (Some ''gpt-custom'') =
       Inr (''openai'', ''gpt-custom'')"
proof -
  have u: "providers (models sample_settings) ''unknown-provider'' = None" by code_simp
  have o: "providers (models sample_settings) ''openai'' = Some [''gpt-4o'', ''gpt-4o-mini'']"
    by code_simp
  have k: "providers (models sample_settings) ''mock'' = Some [''m2'', ''m3'']" by code_simp
  have d: "py_lower (default_provider (models sample_settings)) = ''openai''" by code_simp
  have n: "''gpt-custom'' \<notin> set [''gpt-4o'', ''gpt-4o-mini'']" by simp
  show ?thesis
    using resolution_rules[of sample_settings] u o k d n by simp
qed

section \<open>The resolver never raises\<close>

text \<open>
  Claim C7 says that the resolver degrades to the \<^verbatim>\<open>mock\<close> provider and model pair when the
  requested provider is unknown. With a model override it does not: the provider becomes
  \<^verbatim>\<open>mock\<close> and the model stays the override. Without a \<^verbatim>\<open>config.yaml\<close> the \<^verbatim>\<open>mock\<close> pair is
  \<^verbatim>\<open>("mock", "mock-model")\<close>, and \<^verbatim>\<open>resolve("unknown-provider", "gpt-x")\<close> is \<^verbatim>\<open>("mock", "gpt-x")\<close>.
\<close>

theorem mock_pair_counterexample:
  "(case load_settings no_config None None None of
      Inl e \<Rightarrow> Inl e
    | Inr s \<Rightarrow> resolve_provider_and_model s (Some ''unknown-provider'') (Some ''gpt-x''))
     = Inr (''mock'', ''gpt-x'')
   \<and> (case load_settings no_config None None None of
      Inl e \<Rightarrow> Inl e
    | Inr s \<Rightarrow> resolve_provider_and_model s (Some ''unknown-provider'') None)
     = Inr (''mock'', ''mock-model'')"
  by code_simp

text \<open>
  Claim C7 as amended. For every configuration, provider and override the resolver returns a
  pair and raises nothing. The requested provider is the given one, or the default when
  none (or the empty string) is given, in lower case. When it has no model, the provider of
  the result is \<^verbatim>\<open>mock\<close>, and the model is the override when one is given, else the first
  model of \<^verbatim>\<open>mock\<close> (\<^verbatim>\<open>mock-model\<close> when it has none). When it has a model, the provider is the
  requested one and the model is the override when one is given, else its first model.
\<close>

theorem resolve_never_fails:
  "\<exists>p m. resolve_provider_and_model s provider model_override = Inr (p, m)
     \<and> (\<forall>requested first_mock.
          requested = py_lower (case provider of
                                  None \<Rightarrow> default_provider (models s)
                                | Some r \<Rightarrow> if r = [] then default_provider (models s) else r)
          \<and> first_mock = (case providers (models s) ''mock'' of
                            Some (x # xs) \<Rightarrow> x | _ \<Rightarrow> ''mock-model'') \<longrightarrow>
          ((providers (models s) requested = None \<or> providers (models s) requested = Some []) \<longrightarrow>
             p = ''mock''
             \<and> m = (case model_override of
                      None \<Rightarrow> first_mock
                    | Some x \<Rightarrow> if x = [] then first_mock else x))
          \<and> (\<forall>x xs. providers (models s) requested = Some (x # xs) \<longrightarrow>
               p = requested
               \<and> m = (case model_override of
                        None \<Rightarrow> x
                      | Some y \<Rightarrow> if y = [] then x else y)))"
  by (auto simp add: resolve_provider_and_model_def Let_def py_index0_def
        split: option.splits list.splits)

text \<open>The theorem at \<open>sample_settings\<close>, for a provider that is not configured.\<close>

theorem resolve_never_fails_witness:
  "providers (models sample_settings) ''unknown-provider'' = None
   \<and> (\<exists>p m. resolve_provider_and_model sample_settings (Some ''unknown-provider'')
               (Some ''gpt-x'') = Inr (p, m)
          \<and> p = ''mock'' \<and> m = ''gpt-x'')"
proof -
  have u: "providers (models sample_settings) ''unknown-provider'' = None" by code_simp
  have l: "py_lower ''unknown-provider'' = ''unknown-provider''" by code_simp
  show ?thesis
    using resolve_never_fails[of sample_settings "Some ''unknown-provider''" "Some ''gpt-x''"]
    by (simp add: u l)
qed

section \<open>A missing API key\<close>

text \<open>
  Claim C8. When the resolved provider is \<^verbatim>\<open>openai\<close>, \<^verbatim>\<open>gemini\<close> or \<^verbatim>\<open>deepseek\<close> and its API
  key is unset (None, or the empty string), \<open>generate\<close> raises a RuntimeError whose message
  names the key and tells the user to add it to the \<^verbatim>\<open>.env\<close> file or to switch the provider
  to \<^verbatim>\<open>mock\<close>. It has then made no provider call, whatever the provider methods would
  answer, and it returns no text and no usage.
\<close>

theorem missing_key_fails:
  "resolve_provider_and_model settings provider model = Inr (p, m) \<Longrightarrow>
     (p = ''openai'' \<and> \<not> str_truthy (openai_api_key settings) \<longrightarrow>
        generate settings sdk elapsed_ms system user provider model temp max_tok =
          (Inl (RuntimeError ''OPENAI_API_KEY is not set. Please add it to your .env or switch provider to 'mock'.''), []))
   \<and> (p = ''gemini'' \<and> \<not> str_truthy (gemini_api_key settings) \<longrightarrow>
        generate settings sdk elapsed_ms system user provider model temp max_tok =
          (Inl (RuntimeError ''GEMINI_API_KEY is not set. Please add it to your .env or switch provider to 'mock'.''), []))
   \<and> (p = ''deepseek'' \<and> \<not> str_truthy (deepseek_api_key settings) \<longrightarrow>
        generate settings sdk elapsed_ms system user provider model temp max_tok =
          (Inl (RuntimeError ''DEEPSEEK_API_KEY is not set. Please add it to your .env or switch provider to 'mock'.''), []))"
  by (simp add: generate_def key_message_def)

text \<open>
  The theorem at \<open>sample_settings\<close>, whose OpenAI key is None and whose Gemini key is the
  empty string, with provider methods that would answer.
\<close>

theorem missing_key_fails_witness:
  "resolve_provider_and_model sample_settings None None = Inr (''openai'', ''gpt-4o'')
   \<and> \<not> str_truthy (openai_api_key sample_settings)
   \<and> generate sample_settings answering_sdk 12 ''sys'' ''hi'' None None 0 800 =
       (Inl (RuntimeError ''OPENAI_API_KEY is not set. Please add it to your .env or switch provider to 'mock'.''), [])
   \<and> resolve_provider_and_model sample_settings (Some ''Gemini'') None =
       Inr (''gemini'', ''gemini-pro'')
   \<and> \<not> str_truthy (gemini_api_key sample_settings)
   \<and> generate sample_settings answering_sdk 12 ''sys'' ''hi'' (Some ''Gemini'') None 0 800 =
       (Inl (RuntimeError ''GEMINI_API_KEY is not set. Please add it to your .env or switch provider to 'mock'.''), [])"
proof -
  have r: "resolve_provider_and_model sample_settings None None = Inr (''openai'', ''gpt-4o'')"
    by code_simp
  have k: "\<not> str_truthy (openai_api_key sample_settings)" by code_simp
  have r2: "resolve_provider_and_model sample_settings (Some ''Gemini'') None =
      Inr (''gemini'', ''gemini-pro'')"
    by code_simp
  have k2: "\<not> str_truthy (gemini_api_key sample_settings)" by code_simp
  show ?thesis
    using missing_key_fails[OF r, of answering_sdk 12 "''sys''" "''hi''" 0 800]
      missing_key_fails[OF r2, of answering_sdk 12 "''sys''" "''hi''" 0 800] r k r2 k2
    by simp
qed

end
